theory Spec2Isabelle
  imports Complex_Main
begin

section \<open>Color palette actions: data model\<close>

text \<open>
  The two tables of \<^verbatim>\<open>db/tables.ts\<close>. A column declared \<^verbatim>\<open>optional: true\<close> holds an
  \<open>option\<close>; dates are milliseconds as \<open>int\<close>; the two contrast figures are JavaScript
  numbers that the actions only store, taken here as \<open>real\<close>. Field names carry the
  prefix of their record, since \<open>id\<close> and \<open>name\<close> occur in several of them.
\<close>

record palette =
  palette_id :: string
  palette_userId :: string
  palette_name :: string
  palette_description :: "string option"
  palette_sourceType :: "string option"
  palette_sourceReference :: "string option"
  palette_isFavorite :: bool
  palette_isSystem :: bool
  palette_createdAt :: int
  palette_updatedAt :: int

record color =
  color_id :: string
  color_paletteId :: string
  color_orderIndex :: "int option"
  color_hexValue :: string
  color_role :: "string option"
  color_label :: "string option"
  color_contrastOnLight :: "real option"
  color_contrastOnDark :: "real option"
  color_createdAt :: int

text \<open>The codes of the \<^verbatim>\<open>ActionError\<close>s thrown in \<^verbatim>\<open>src/actions/index.ts\<close>, the
  rejection of an input by its schema, and a fault raised by the store itself.\<close>

datatype error_code = UNAUTHORIZED | NOT_FOUND | FORBIDDEN | VALIDATION | STORE_FAULT

text \<open>The request context (\<^verbatim>\<open>ActionAPIContext\<close>): \<^verbatim>\<open>context.locals\<close> may be undefined, and so may its \<^verbatim>\<open>user\<close>.\<close>

record user =
  user_id :: string

record locals =
  locals_user :: "user option"

record api_context =
  context_locals :: "locals option"

text \<open>What a handler draws from its surroundings: the clock read by \<^verbatim>\<open>new Date()\<close> and the
  identifier returned by \<^verbatim>\<open>crypto.randomUUID()\<close>. No handler reads either more than once.\<close>

record env =
  env_now :: int
  env_uuid :: string

section \<open>The store\<close>

text \<open>
  The relational store behind \<^verbatim>\<open>db\<close>: each table is the list of its rows, in insertion
  order. Every call of \<^verbatim>\<open>db.select\<close>, \<^verbatim>\<open>db.insert\<close>, \<^verbatim>\<open>db.update\<close> and \<^verbatim>\<open>db.delete\<close>
  is recorded in \<open>accesses\<close>, so that "no read and no write happened" is a statement about
  the state: the list of accesses did not grow.
\<close>

datatype table_name = ColorPalettes | PaletteColors

datatype access = Select table_name | Insert table_name | Update table_name | Delete table_name

record store =
  palettes :: "palette list"
  colors :: "color list"
  accesses :: "access list"

definition record_access :: "access \<Rightarrow> store \<Rightarrow> store" where
  "record_access a s = s\<lparr>accesses := accesses s @ [a]\<rparr>"

text \<open>The object handed to \<^verbatim>\<open>.set(...)\<close> is a list of column assignments. Any column of
  the table may be assigned; which ones an action assigns is decided by the action.\<close>

datatype palette_assign =
    Set_palette_id string
  | Set_palette_userId string
  | Set_palette_name string
  | Set_palette_description string
  | Set_palette_sourceType string
  | Set_palette_sourceReference string
  | Set_palette_isFavorite bool
  | Set_palette_isSystem bool
  | Set_palette_createdAt int
  | Set_palette_updatedAt int

fun assign_palette :: "palette_assign \<Rightarrow> palette \<Rightarrow> palette" where
  "assign_palette (Set_palette_id v) p = p\<lparr>palette_id := v\<rparr>"
| "assign_palette (Set_palette_userId v) p = p\<lparr>palette_userId := v\<rparr>"
| "assign_palette (Set_palette_name v) p = p\<lparr>palette_name := v\<rparr>"
| "assign_palette (Set_palette_description v) p = p\<lparr>palette_description := Some v\<rparr>"
| "assign_palette (Set_palette_sourceType v) p = p\<lparr>palette_sourceType := Some v\<rparr>"
| "assign_palette (Set_palette_sourceReference v) p = p\<lparr>palette_sourceReference := Some v\<rparr>"
| "assign_palette (Set_palette_isFavorite v) p = p\<lparr>palette_isFavorite := v\<rparr>"
| "assign_palette (Set_palette_isSystem v) p = p\<lparr>palette_isSystem := v\<rparr>"
| "assign_palette (Set_palette_createdAt v) p = p\<lparr>palette_createdAt := v\<rparr>"
| "assign_palette (Set_palette_updatedAt v) p = p\<lparr>palette_updatedAt := v\<rparr>"

datatype color_assign =
    Set_color_id string
  | Set_color_paletteId string
  | Set_color_orderIndex int
  | Set_color_hexValue string
  | Set_color_role string
  | Set_color_label string
  | Set_color_contrastOnLight real
  | Set_color_contrastOnDark real
  | Set_color_createdAt int

fun assign_color :: "color_assign \<Rightarrow> color \<Rightarrow> color" where
  "assign_color (Set_color_id v) c = c\<lparr>color_id := v\<rparr>"
| "assign_color (Set_color_paletteId v) c = c\<lparr>color_paletteId := v\<rparr>"
| "assign_color (Set_color_orderIndex v) c = c\<lparr>color_orderIndex := Some v\<rparr>"
| "assign_color (Set_color_hexValue v) c = c\<lparr>color_hexValue := v\<rparr>"
| "assign_color (Set_color_role v) c = c\<lparr>color_role := Some v\<rparr>"
| "assign_color (Set_color_label v) c = c\<lparr>color_label := Some v\<rparr>"
| "assign_color (Set_color_contrastOnLight v) c = c\<lparr>color_contrastOnLight := Some v\<rparr>"
| "assign_color (Set_color_contrastOnDark v) c = c\<lparr>color_contrastOnDark := Some v\<rparr>"
| "assign_color (Set_color_createdAt v) c = c\<lparr>color_createdAt := v\<rparr>"

text \<open>\<^verbatim>\<open>db.select().from(T).where(cond)\<close>: the rows that satisfy the condition.\<close>

definition db_select_palettes :: "(palette \<Rightarrow> bool) \<Rightarrow> store \<Rightarrow> palette list \<times> store" where
  "db_select_palettes cond s =
     (filter cond (palettes s), record_access (Select ColorPalettes) s)"

definition db_select_colors :: "(color \<Rightarrow> bool) \<Rightarrow> store \<Rightarrow> color list \<times> store" where
  "db_select_colors cond s =
     (filter cond (colors s), record_access (Select PaletteColors) s)"

text \<open>\<^verbatim>\<open>db.insert(T).values(row).returning()\<close>: \<^verbatim>\<open>id\<close> is the primary key of both tables,
  so a row whose id is already there is refused by the store; otherwise the row is added
  and returned.\<close>

definition db_insert_palette :: "palette \<Rightarrow> store \<Rightarrow> (error_code + palette list) \<times> store" where
  "db_insert_palette row s =
     (if palette_id row \<in> set (map palette_id (palettes s))
      then (Inl STORE_FAULT, record_access (Insert ColorPalettes) s)
      else (Inr [row], record_access (Insert ColorPalettes) (s\<lparr>palettes := palettes s @ [row]\<rparr>)))"

definition db_insert_color :: "color \<Rightarrow> store \<Rightarrow> (error_code + color list) \<times> store" where
  "db_insert_color row s =
     (if color_id row \<in> set (map color_id (colors s))
      then (Inl STORE_FAULT, record_access (Insert PaletteColors) s)
      else (Inr [row], record_access (Insert PaletteColors) (s\<lparr>colors := colors s @ [row]\<rparr>)))"

text \<open>\<^verbatim>\<open>db.update(T).set(values).where(cond).returning()\<close>: every row that satisfies the
  condition gets the assignments, in their order, and the rows so changed are returned.
  An update with nothing to set is refused.\<close>

definition db_update_palettes ::
  "palette_assign list \<Rightarrow> (palette \<Rightarrow> bool) \<Rightarrow> store \<Rightarrow> (error_code + palette list) \<times> store" where
  "db_update_palettes vals cond s =
     (if vals = [] then (Inl STORE_FAULT, record_access (Update ColorPalettes) s)
      else (Inr (map (fold assign_palette vals) (filter cond (palettes s))),
            record_access (Update ColorPalettes)
              (s\<lparr>palettes := map (\<lambda>p. if cond p then fold assign_palette vals p else p) (palettes s)\<rparr>)))"

definition db_update_colors ::
  "color_assign list \<Rightarrow> (color \<Rightarrow> bool) \<Rightarrow> store \<Rightarrow> (error_code + color list) \<times> store" where
  "db_update_colors vals cond s =
     (if vals = [] then (Inl STORE_FAULT, record_access (Update PaletteColors) s)
      else (Inr (map (fold assign_color vals) (filter cond (colors s))),
            record_access (Update PaletteColors)
              (s\<lparr>colors := map (\<lambda>c. if cond c then fold assign_color vals c else c) (colors s)\<rparr>)))"

text \<open>\<^verbatim>\<open>db.delete(T).where(cond)\<close>: the rows that satisfy the condition are removed; the
  result is \<^verbatim>\<open>rowsAffected\<close>, their number.\<close>

definition db_delete_colors :: "(color \<Rightarrow> bool) \<Rightarrow> store \<Rightarrow> nat \<times> store" where
  "db_delete_colors cond s =
     (length (filter cond (colors s)),
      record_access (Delete PaletteColors) (s\<lparr>colors := filter (\<lambda>c. \<not> cond c) (colors s)\<rparr>))"

text \<open>\<^verbatim>\<open>const [row] = rows\<close>: the first row, undefined when there is none.\<close>

definition first_row :: "'a list \<Rightarrow> 'a option" where
  "first_row rows = (case rows of [] \<Rightarrow> None | row # _ \<Rightarrow> Some row)"

text \<open>The primary keys of the schema, as a property of a store.\<close>

definition primary_keys :: "store \<Rightarrow> bool" where
  "primary_keys s = (distinct (map palette_id (palettes s)) \<and> distinct (map color_id (colors s)))"

section \<open>Identity gate and ownership resolver\<close>

text \<open>\<^verbatim>\<open>locals?.user\<close>: the caller's identity, if the context carries one.\<close>

definition context_user :: "api_context \<Rightarrow> user option" where
  "context_user ctx = (case context_locals ctx of None \<Rightarrow> None | Some l \<Rightarrow> locals_user l)"

definition requireUser :: "api_context \<Rightarrow> error_code + user" where
  "requireUser ctx =
     (case context_user ctx of
        None \<Rightarrow> Inl UNAUTHORIZED
      | Some user \<Rightarrow> Inr user)"

definition getOwnedPalette :: "string \<Rightarrow> string \<Rightarrow> store \<Rightarrow> (error_code + palette) \<times> store" where
  "getOwnedPalette paletteId userId s =
     (case db_select_palettes (\<lambda>p. palette_id p = paletteId) s of
        ([], s1) \<Rightarrow> (Inl NOT_FOUND, s1)
      | (p # _, s1) \<Rightarrow>
          (if palette_userId p \<noteq> userId \<and> \<not> palette_isSystem p
           then (Inl FORBIDDEN, s1)
           else (Inr p, s1)))"

section \<open>Inputs, schemas and results of the actions\<close>

text \<open>The input objects as the handlers receive them: a key declared \<^verbatim>\<open>.optional()\<close> is an
  \<open>option\<close>, \<open>None\<close> standing for \<^verbatim>\<open>undefined\<close>. \<^verbatim>\<open>favoritesOnly\<close> has a default, so the
  handler always finds a boolean there.\<close>

record createPalette_input =
  cp_name :: string
  cp_description :: "string option"
  cp_sourceType :: "string option"
  cp_sourceReference :: "string option"
  cp_isFavorite :: "bool option"

record updatePalette_input =
  up_id :: string
  up_name :: "string option"
  up_description :: "string option"
  up_sourceType :: "string option"
  up_sourceReference :: "string option"
  up_isFavorite :: "bool option"

record listPalettes_input =
  lp_favoritesOnly :: bool

record createPaletteColor_input =
  cc_paletteId :: string
  cc_orderIndex :: "int option"
  cc_hexValue :: string
  cc_role :: "string option"
  cc_label :: "string option"
  cc_contrastOnLight :: "real option"
  cc_contrastOnDark :: "real option"

record updatePaletteColor_input =
  uc_id :: string
  uc_paletteId :: string
  uc_orderIndex :: "int option"
  uc_hexValue :: "string option"
  uc_role :: "string option"
  uc_label :: "string option"
  uc_contrastOnLight :: "real option"
  uc_contrastOnDark :: "real option"

record deletePaletteColor_input =
  dc_id :: string
  dc_paletteId :: string

record listPaletteColors_input =
  lc_paletteId :: string

text \<open>\<^verbatim>\<open>{ items, total }\<close>, the payload of the two list actions.\<close>

record 'a listing =
  items :: "'a list"
  total :: nat

text \<open>The \<^verbatim>\<open>z.object(...)\<close> schemas, as far as the types above do not already enforce them:
  \<^verbatim>\<open>.min(1)\<close> on a string, and the \<^verbatim>\<open>.refine(...)\<close> of the two update actions.\<close>

definition createPalette_schema :: "createPalette_input \<Rightarrow> bool" where
  "createPalette_schema input = (length (cp_name input) \<ge> 1)"

definition updatePalette_schema :: "updatePalette_input \<Rightarrow> bool" where
  "updatePalette_schema input =
     (length (up_id input) \<ge> 1 \<and>
      (up_name input \<noteq> None \<or>
       up_description input \<noteq> None \<or>
       up_sourceType input \<noteq> None \<or>
       up_sourceReference input \<noteq> None \<or>
       up_isFavorite input \<noteq> None))"

definition listPalettes_schema :: "listPalettes_input \<Rightarrow> bool" where
  "listPalettes_schema input = True"

definition createPaletteColor_schema :: "createPaletteColor_input \<Rightarrow> bool" where
  "createPaletteColor_schema input =
     (length (cc_paletteId input) \<ge> 1 \<and> length (cc_hexValue input) \<ge> 1)"

definition updatePaletteColor_schema :: "updatePaletteColor_input \<Rightarrow> bool" where
  "updatePaletteColor_schema input =
     (length (uc_id input) \<ge> 1 \<and> length (uc_paletteId input) \<ge> 1 \<and>
      (uc_orderIndex input \<noteq> None \<or>
       uc_hexValue input \<noteq> None \<or>
       uc_role input \<noteq> None \<or>
       uc_label input \<noteq> None \<or>
       uc_contrastOnLight input \<noteq> None \<or>
       uc_contrastOnDark input \<noteq> None))"

definition deletePaletteColor_schema :: "deletePaletteColor_input \<Rightarrow> bool" where
  "deletePaletteColor_schema input =
     (length (dc_id input) \<ge> 1 \<and> length (dc_paletteId input) \<ge> 1)"

definition listPaletteColors_schema :: "listPaletteColors_input \<Rightarrow> bool" where
  "listPaletteColors_schema input = (length (lc_paletteId input) \<ge> 1)"

text \<open>Modelled from the spec: \<^verbatim>\<open>defineAction\<close> belongs to the framework and is not part of
  the sources. The spec says of it that validation failures for malformed or incomplete
  input are raised before the handler body executes; an input that passes its schema is
  handed to the handler.\<close>

definition defineAction ::
  "('i \<Rightarrow> bool) \<Rightarrow> ('i \<Rightarrow> api_context \<Rightarrow> env \<Rightarrow> store \<Rightarrow> (error_code + 'r) \<times> store)
     \<Rightarrow> 'i \<Rightarrow> api_context \<Rightarrow> env \<Rightarrow> store \<Rightarrow> (error_code + 'r) \<times> store" where
  "defineAction schema handler input ctx e s =
     (if schema input then handler input ctx e s else (Inl VALIDATION, s))"

section \<open>Palette actions\<close>

definition createPalette_handler ::
  "createPalette_input \<Rightarrow> api_context \<Rightarrow> env \<Rightarrow> store \<Rightarrow> (error_code + palette option) \<times> store" where
  "createPalette_handler input ctx e s =
     (case requireUser ctx of
        Inl err \<Rightarrow> (Inl err, s)
      | Inr user \<Rightarrow>
          (case db_insert_palette
                  \<lparr>palette_id = env_uuid e,
                   palette_userId = user_id user,
                   palette_name = cp_name input,
                   palette_description = cp_description input,
                   palette_sourceType = cp_sourceType input,
                   palette_sourceReference = cp_sourceReference input,
                   palette_isFavorite = (case cp_isFavorite input of None \<Rightarrow> False | Some b \<Rightarrow> b),
                   palette_isSystem = False,
                   palette_createdAt = env_now e,
                   palette_updatedAt = env_now e\<rparr> s of
             (Inl err, s1) \<Rightarrow> (Inl err, s1)
           | (Inr rows, s1) \<Rightarrow> (Inr (first_row rows), s1)))"

definition createPalette ::
  "createPalette_input \<Rightarrow> api_context \<Rightarrow> env \<Rightarrow> store \<Rightarrow> (error_code + palette option) \<times> store" where
  "createPalette = defineAction createPalette_schema createPalette_handler"

text \<open>The object built by the conditional spreads of \<^verbatim>\<open>updatePalette\<close>, key by key.\<close>

definition updatePalette_set :: "updatePalette_input \<Rightarrow> env \<Rightarrow> palette_assign list" where
  "updatePalette_set input e =
     (case up_name input of Some v \<Rightarrow> [Set_palette_name v] | None \<Rightarrow> []) @
     (case up_description input of Some v \<Rightarrow> [Set_palette_description v] | None \<Rightarrow> []) @
     (case up_sourceType input of Some v \<Rightarrow> [Set_palette_sourceType v] | None \<Rightarrow> []) @
     (case up_sourceReference input of Some v \<Rightarrow> [Set_palette_sourceReference v] | None \<Rightarrow> []) @
     (case up_isFavorite input of Some v \<Rightarrow> [Set_palette_isFavorite v] | None \<Rightarrow> []) @
     [Set_palette_updatedAt (env_now e)]"

definition updatePalette_handler ::
  "updatePalette_input \<Rightarrow> api_context \<Rightarrow> env \<Rightarrow> store \<Rightarrow> (error_code + palette option) \<times> store" where
  "updatePalette_handler input ctx e s =
     (case requireUser ctx of
        Inl err \<Rightarrow> (Inl err, s)
      | Inr user \<Rightarrow>
          (case getOwnedPalette (up_id input) (user_id user) s of
             (Inl err, s1) \<Rightarrow> (Inl err, s1)
           | (Inr palette, s1) \<Rightarrow>
               (case db_update_palettes (updatePalette_set input e)
                       (\<lambda>p. palette_id p = up_id input) s1 of
                  (Inl err, s2) \<Rightarrow> (Inl err, s2)
                | (Inr rows, s2) \<Rightarrow> (Inr (first_row rows), s2))))"

definition updatePalette ::
  "updatePalette_input \<Rightarrow> api_context \<Rightarrow> env \<Rightarrow> store \<Rightarrow> (error_code + palette option) \<times> store" where
  "updatePalette = defineAction updatePalette_schema updatePalette_handler"

text \<open>\<^verbatim>\<open>and(...filters)\<close>: a row passes when it passes every filter of the list.\<close>

definition and_filters :: "('a \<Rightarrow> bool) list \<Rightarrow> 'a \<Rightarrow> bool" where
  "and_filters filters row = list_all (\<lambda>f. f row) filters"

definition listPalettes_filters :: "listPalettes_input \<Rightarrow> user \<Rightarrow> (palette \<Rightarrow> bool) list" where
  "listPalettes_filters input user =
     [\<lambda>p. palette_userId p = user_id user \<or> palette_isSystem p = True] @
     (if lp_favoritesOnly input then [\<lambda>p. palette_isFavorite p = True] else [])"

definition listPalettes_handler ::
  "listPalettes_input \<Rightarrow> api_context \<Rightarrow> env \<Rightarrow> store \<Rightarrow> (error_code + palette listing) \<times> store" where
  "listPalettes_handler input ctx e s =
     (case requireUser ctx of
        Inl err \<Rightarrow> (Inl err, s)
      | Inr user \<Rightarrow>
          (case db_select_palettes (and_filters (listPalettes_filters input user)) s of
             (rows, s1) \<Rightarrow> (Inr \<lparr>items = rows, total = length rows\<rparr>, s1)))"

definition listPalettes ::
  "listPalettes_input \<Rightarrow> api_context \<Rightarrow> env \<Rightarrow> store \<Rightarrow> (error_code + palette listing) \<times> store" where
  "listPalettes = defineAction listPalettes_schema listPalettes_handler"

section \<open>Palette color actions\<close>

definition createPaletteColor_handler ::
  "createPaletteColor_input \<Rightarrow> api_context \<Rightarrow> env \<Rightarrow> store \<Rightarrow> (error_code + color option) \<times> store" where
  "createPaletteColor_handler input ctx e s =
     (case requireUser ctx of
        Inl err \<Rightarrow> (Inl err, s)
      | Inr user \<Rightarrow>
          (case getOwnedPalette (cc_paletteId input) (user_id user) s of
             (Inl err, s1) \<Rightarrow> (Inl err, s1)
           | (Inr palette, s1) \<Rightarrow>
               (case db_insert_color
                       \<lparr>color_id = env_uuid e,
                        color_paletteId = cc_paletteId input,
                        color_orderIndex = cc_orderIndex input,
                        color_hexValue = cc_hexValue input,
                        color_role = cc_role input,
                        color_label = cc_label input,
                        color_contrastOnLight = cc_contrastOnLight input,
                        color_contrastOnDark = cc_contrastOnDark input,
                        color_createdAt = env_now e\<rparr> s1 of
                  (Inl err, s2) \<Rightarrow> (Inl err, s2)
                | (Inr rows, s2) \<Rightarrow> (Inr (first_row rows), s2))))"

definition createPaletteColor ::
  "createPaletteColor_input \<Rightarrow> api_context \<Rightarrow> env \<Rightarrow> store \<Rightarrow> (error_code + color option) \<times> store" where
  "createPaletteColor = defineAction createPaletteColor_schema createPaletteColor_handler"

text \<open>The object built by the conditional spreads of \<^verbatim>\<open>updatePaletteColor\<close>.\<close>

definition updatePaletteColor_set :: "updatePaletteColor_input \<Rightarrow> color_assign list" where
  "updatePaletteColor_set input =
     (case uc_orderIndex input of Some v \<Rightarrow> [Set_color_orderIndex v] | None \<Rightarrow> []) @
     (case uc_hexValue input of Some v \<Rightarrow> [Set_color_hexValue v] | None \<Rightarrow> []) @
     (case uc_role input of Some v \<Rightarrow> [Set_color_role v] | None \<Rightarrow> []) @
     (case uc_label input of Some v \<Rightarrow> [Set_color_label v] | None \<Rightarrow> []) @
     (case uc_contrastOnLight input of Some v \<Rightarrow> [Set_color_contrastOnLight v] | None \<Rightarrow> []) @
     (case uc_contrastOnDark input of Some v \<Rightarrow> [Set_color_contrastOnDark v] | None \<Rightarrow> [])"

definition updatePaletteColor_handler ::
  "updatePaletteColor_input \<Rightarrow> api_context \<Rightarrow> env \<Rightarrow> store \<Rightarrow> (error_code + color option) \<times> store" where
  "updatePaletteColor_handler input ctx e s =
     (case requireUser ctx of
        Inl err \<Rightarrow> (Inl err, s)
      | Inr user \<Rightarrow>
          (case getOwnedPalette (uc_paletteId input) (user_id user) s of
             (Inl err, s1) \<Rightarrow> (Inl err, s1)
           | (Inr palette, s1) \<Rightarrow>
               (case db_select_colors
                       (\<lambda>c. color_id c = uc_id input \<and> color_paletteId c = uc_paletteId input) s1 of
                  ([], s2) \<Rightarrow> (Inl NOT_FOUND, s2)
                | (existing # _, s2) \<Rightarrow>
                    (case db_update_colors (updatePaletteColor_set input)
                            (\<lambda>c. color_id c = uc_id input) s2 of
                       (Inl err, s3) \<Rightarrow> (Inl err, s3)
                     | (Inr rows, s3) \<Rightarrow> (Inr (first_row rows), s3)))))"

definition updatePaletteColor ::
  "updatePaletteColor_input \<Rightarrow> api_context \<Rightarrow> env \<Rightarrow> store \<Rightarrow> (error_code + color option) \<times> store" where
  "updatePaletteColor = defineAction updatePaletteColor_schema updatePaletteColor_handler"

definition deletePaletteColor_handler ::
  "deletePaletteColor_input \<Rightarrow> api_context \<Rightarrow> env \<Rightarrow> store \<Rightarrow> (error_code + unit) \<times> store" where
  "deletePaletteColor_handler input ctx e s =
     (case requireUser ctx of
        Inl err \<Rightarrow> (Inl err, s)
      | Inr user \<Rightarrow>
          (case getOwnedPalette (dc_paletteId input) (user_id user) s of
             (Inl err, s1) \<Rightarrow> (Inl err, s1)
           | (Inr palette, s1) \<Rightarrow>
               (case db_delete_colors
                       (\<lambda>c. color_id c = dc_id input \<and> color_paletteId c = dc_paletteId input) s1 of
                  (rowsAffected, s2) \<Rightarrow>
                    (if rowsAffected = 0 then (Inl NOT_FOUND, s2) else (Inr (), s2)))))"

definition deletePaletteColor ::
  "deletePaletteColor_input \<Rightarrow> api_context \<Rightarrow> env \<Rightarrow> store \<Rightarrow> (error_code + unit) \<times> store" where
  "deletePaletteColor = defineAction deletePaletteColor_schema deletePaletteColor_handler"

definition listPaletteColors_handler ::
  "listPaletteColors_input \<Rightarrow> api_context \<Rightarrow> env \<Rightarrow> store \<Rightarrow> (error_code + color listing) \<times> store" where
  "listPaletteColors_handler input ctx e s =
     (case requireUser ctx of
        Inl err \<Rightarrow> (Inl err, s)
      | Inr user \<Rightarrow>
          (case getOwnedPalette (lc_paletteId input) (user_id user) s of
             (Inl err, s1) \<Rightarrow> (Inl err, s1)
           | (Inr palette, s1) \<Rightarrow>
               (case db_select_colors (\<lambda>c. color_paletteId c = lc_paletteId input) s1 of
                  (rows, s2) \<Rightarrow> (Inr \<lparr>items = rows, total = length rows\<rparr>, s2))))"

definition listPaletteColors ::
  "listPaletteColors_input \<Rightarrow> api_context \<Rightarrow> env \<Rightarrow> store \<Rightarrow> (error_code + color listing) \<times> store" where
  "listPaletteColors = defineAction listPaletteColors_schema listPaletteColors_handler"

section \<open>Partial updates as the specification words them\<close>

text \<open>The specification describes an update as "applies only the fields present; absent
  fields are left unchanged, not nulled", and for a palette "always refreshes \<^verbatim>\<open>updatedAt\<close>
  to the current time". The two functions below say this field by field, for every column
  of the row; the actions are compared with them.\<close>

definition partial_update_palette :: "updatePalette_input \<Rightarrow> int \<Rightarrow> palette \<Rightarrow> palette" where
  "partial_update_palette input now p =
     \<lparr>palette_id = palette_id p,
      palette_userId = palette_userId p,
      palette_name = (case up_name input of None \<Rightarrow> palette_name p | Some v \<Rightarrow> v),
      palette_description =
        (case up_description input of None \<Rightarrow> palette_description p | Some v \<Rightarrow> Some v),
      palette_sourceType =
        (case up_sourceType input of None \<Rightarrow> palette_sourceType p | Some v \<Rightarrow> Some v),
      palette_sourceReference =
        (case up_sourceReference input of None \<Rightarrow> palette_sourceReference p | Some v \<Rightarrow> Some v),
      palette_isFavorite = (case up_isFavorite input of None \<Rightarrow> palette_isFavorite p | Some v \<Rightarrow> v),
      palette_isSystem = palette_isSystem p,
      palette_createdAt = palette_createdAt p,
      palette_updatedAt = now\<rparr>"

definition partial_update_color :: "updatePaletteColor_input \<Rightarrow> color \<Rightarrow> color" where
  "partial_update_color input c =
     \<lparr>color_id = color_id c,
      color_paletteId = color_paletteId c,
      color_orderIndex = (case uc_orderIndex input of None \<Rightarrow> color_orderIndex c | Some v \<Rightarrow> Some v),
      color_hexValue = (case uc_hexValue input of None \<Rightarrow> color_hexValue c | Some v \<Rightarrow> v),
      color_role = (case uc_role input of None \<Rightarrow> color_role c | Some v \<Rightarrow> Some v),
      color_label = (case uc_label input of None \<Rightarrow> color_label c | Some v \<Rightarrow> Some v),
      color_contrastOnLight =
        (case uc_contrastOnLight input of None \<Rightarrow> color_contrastOnLight c | Some v \<Rightarrow> Some v),
      color_contrastOnDark =
        (case uc_contrastOnDark input of None \<Rightarrow> color_contrastOnDark c | Some v \<Rightarrow> Some v),
      color_createdAt = color_createdAt c\<rparr>"

text \<open>A palette row with its modification time blanked: two rows agree "modulo timestamp"
  when they agree after this.\<close>

definition without_updatedAt :: "palette \<Rightarrow> palette" where
  "without_updatedAt p = p\<lparr>palette_updatedAt := 0\<rparr>"

section \<open>The public interface\<close>

text \<open>\<^verbatim>\<open>export const server = { ... }\<close>: the seven actions a client can call. A request names
  one of them and carries its input; \<open>server\<close> gives the store the call leaves behind.\<close>

datatype request =
    CreatePalette createPalette_input
  | UpdatePalette updatePalette_input
  | ListPalettes listPalettes_input
  | CreatePaletteColor createPaletteColor_input
  | UpdatePaletteColor updatePaletteColor_input
  | DeletePaletteColor deletePaletteColor_input
  | ListPaletteColors listPaletteColors_input

fun server :: "request \<Rightarrow> api_context \<Rightarrow> env \<Rightarrow> store \<Rightarrow> store" where
  "server (CreatePalette input) ctx e s = snd (createPalette input ctx e s)"
| "server (UpdatePalette input) ctx e s = snd (updatePalette input ctx e s)"
| "server (ListPalettes input) ctx e s = snd (listPalettes input ctx e s)"
| "server (CreatePaletteColor input) ctx e s = snd (createPaletteColor input ctx e s)"
| "server (UpdatePaletteColor input) ctx e s = snd (updatePaletteColor input ctx e s)"
| "server (DeletePaletteColor input) ctx e s = snd (deletePaletteColor input ctx e s)"
| "server (ListPaletteColors input) ctx e s = snd (listPaletteColors input ctx e s)"

section \<open>Sample data\<close>

text \<open>Two users, three palettes (one of them system-shared) and two colors, used to run
  the actions on concrete inputs.\<close>

definition alice :: user where
  "alice = \<lparr>user_id = ''alice''\<rparr>"

definition bob :: user where
  "bob = \<lparr>user_id = ''bob''\<rparr>"

definition signed_in :: "user \<Rightarrow> api_context" where
  "signed_in u = \<lparr>context_locals = Some \<lparr>locals_user = Some u\<rparr>\<rparr>"

definition anonymous :: api_context where
  "anonymous = \<lparr>context_locals = Some \<lparr>locals_user = None\<rparr>\<rparr>"

definition sunset :: palette where
  "sunset = \<lparr>palette_id = ''p1'', palette_userId = ''alice'', palette_name = ''Sunset'',
     palette_description = None, palette_sourceType = None, palette_sourceReference = None,
     palette_isFavorite = False, palette_isSystem = False,
     palette_createdAt = 1000, palette_updatedAt = 1000\<rparr>"

definition curated :: palette where
  "curated = \<lparr>palette_id = ''p2'', palette_userId = ''admin'', palette_name = ''Curated'',
     palette_description = Some ''house style'', palette_sourceType = None,
     palette_sourceReference = None,
     palette_isFavorite = False, palette_isSystem = True,
     palette_createdAt = 500, palette_updatedAt = 500\<rparr>"

definition ocean :: palette where
  "ocean = \<lparr>palette_id = ''p3'', palette_userId = ''alice'', palette_name = ''Ocean'',
     palette_description = None, palette_sourceType = Some ''manual'',
     palette_sourceReference = None,
     palette_isFavorite = True, palette_isSystem = False,
     palette_createdAt = 1500, palette_updatedAt = 1600\<rparr>"

definition orange :: color where
  "orange = \<lparr>color_id = ''c1'', color_paletteId = ''p1'', color_orderIndex = Some 0,
     color_hexValue = ''#FF5733'', color_role = Some ''primary'', color_label = None,
     color_contrastOnLight = None, color_contrastOnDark = None, color_createdAt = 1100\<rparr>"

definition teal :: color where
  "teal = \<lparr>color_id = ''c2'', color_paletteId = ''p3'', color_orderIndex = None,
     color_hexValue = ''#008080'', color_role = None, color_label = Some ''Teal'',
     color_contrastOnLight = None, color_contrastOnDark = None, color_createdAt = 1700\<rparr>"

definition sample_store :: store where
  "sample_store = \<lparr>palettes = [sunset, curated, ocean], colors = [orange, teal], accesses = []\<rparr>"

definition sample_env :: env where
  "sample_env = \<lparr>env_now = 2000, env_uuid = ''p9''\<rparr>"

definition later_env :: env where
  "later_env = \<lparr>env_now = 3000, env_uuid = ''p10''\<rparr>"

text \<open>One input for each action. \<open>favorite_sunset\<close> marks Alice's palette a favorite;
  \<open>rename_curated\<close> renames the system palette; the two \<open>misplaced\<close> inputs name the color
  \<open>c2\<close>, which belongs to palette \<open>p3\<close>, under palette \<open>p1\<close>.\<close>

definition new_forest :: createPalette_input where
  "new_forest = \<lparr>cp_name = ''Forest'', cp_description = None, cp_sourceType = None,
     cp_sourceReference = None, cp_isFavorite = None\<rparr>"

definition forest :: palette where
  "forest = \<lparr>palette_id = ''p9'', palette_userId = ''alice'', palette_name = ''Forest'',
     palette_description = None, palette_sourceType = None, palette_sourceReference = None,
     palette_isFavorite = False, palette_isSystem = False,
     palette_createdAt = 2000, palette_updatedAt = 2000\<rparr>"

definition favorite_sunset :: updatePalette_input where
  "favorite_sunset = \<lparr>up_id = ''p1'', up_name = None, up_description = None,
     up_sourceType = None, up_sourceReference = None, up_isFavorite = Some True\<rparr>"

definition rename_curated :: updatePalette_input where
  "rename_curated = \<lparr>up_id = ''p2'', up_name = Some ''Mine'', up_description = None,
     up_sourceType = None, up_sourceReference = None, up_isFavorite = None\<rparr>"

definition touch_nothing :: updatePalette_input where
  "touch_nothing = \<lparr>up_id = ''p1'', up_name = None, up_description = None,
     up_sourceType = None, up_sourceReference = None, up_isFavorite = None\<rparr>"

definition favorites :: listPalettes_input where
  "favorites = \<lparr>lp_favoritesOnly = True\<rparr>"

definition everything :: listPalettes_input where
  "everything = \<lparr>lp_favoritesOnly = False\<rparr>"

definition new_green :: createPaletteColor_input where
  "new_green = \<lparr>cc_paletteId = ''p1'', cc_orderIndex = None, cc_hexValue = ''#00FF00'',
     cc_role = None, cc_label = None, cc_contrastOnLight = None, cc_contrastOnDark = None\<rparr>"

definition repaint_orange :: updatePaletteColor_input where
  "repaint_orange = \<lparr>uc_id = ''c1'', uc_paletteId = ''p1'', uc_orderIndex = None,
     uc_hexValue = Some ''#FF0000'', uc_role = None, uc_label = Some ''Red'',
     uc_contrastOnLight = None, uc_contrastOnDark = None\<rparr>"

definition misplaced_repaint :: updatePaletteColor_input where
  "misplaced_repaint = \<lparr>uc_id = ''c2'', uc_paletteId = ''p1'', uc_orderIndex = None,
     uc_hexValue = Some ''#FF0000'', uc_role = None, uc_label = None,
     uc_contrastOnLight = None, uc_contrastOnDark = None\<rparr>"

definition remove_orange :: deletePaletteColor_input where
  "remove_orange = \<lparr>dc_id = ''c1'', dc_paletteId = ''p1''\<rparr>"

definition misplaced_remove :: deletePaletteColor_input where
  "misplaced_remove = \<lparr>dc_id = ''c2'', dc_paletteId = ''p1''\<rparr>"

definition colors_of_sunset :: listPaletteColors_input where
  "colors_of_sunset = \<lparr>lc_paletteId = ''p1''\<rparr>"

lemmas sample_rows =
  sunset_def curated_def ocean_def forest_def orange_def teal_def sample_store_def sample_env_def
  later_env_def

lemmas sample_callers =
  alice_def bob_def signed_in_def anonymous_def context_user_def

section \<open>Facts about the store and the resolver\<close>

lemma filter_primary_key:
  "distinct (map f xs) \<Longrightarrow> x \<in> set xs \<Longrightarrow> filter (\<lambda>y. f y = f x) xs = [x]"
proof (induction xs)
  case Nil
  then show ?case by simp
next
  case (Cons a xs)
  show ?case
  proof (cases "a = x")
    case True
    with Cons.prems have "f x \<notin> f ` set xs" by simp
    then have "\<forall>y\<in>set xs. f y \<noteq> f x" by (metis imageI)
    then have "filter (\<lambda>y. f y = f x) xs = []" by (simp add: filter_empty_conv)
    with True show ?thesis by simp
  next
    case False
    with Cons.prems have "x \<in> set xs" and "f a \<noteq> f x" by auto
    with Cons show ?thesis by simp
  qed
qed

lemma getOwnedPalette_store:
  "snd (getOwnedPalette paletteId userId s) = record_access (Select ColorPalettes) s"
  by (simp add: getOwnedPalette_def db_select_palettes_def split: list.splits)

lemma getOwnedPalette_eq:
  "getOwnedPalette paletteId userId s =
     (fst (getOwnedPalette paletteId userId s), record_access (Select ColorPalettes) s)"
  using getOwnedPalette_store [of paletteId userId s]
  by (cases "getOwnedPalette paletteId userId s") simp

lemma getOwnedPalette_fst:
  "fst (getOwnedPalette paletteId userId s) =
     (case filter (\<lambda>p. palette_id p = paletteId) (palettes s) of
        [] \<Rightarrow> Inl NOT_FOUND
      | p # _ \<Rightarrow> if palette_userId p \<noteq> userId \<and> \<not> palette_isSystem p then Inl FORBIDDEN else Inr p)"
  by (simp add: getOwnedPalette_def db_select_palettes_def split: list.splits)

text \<open>The handlers and the actions: an input that passes its schema is handled by the
  handler, an input that does not is refused with no access to the store, and an action
  succeeds only where its handler does. What is proved below of a handler for every input
  therefore holds of the action for every input that passes the schema.\<close>

lemma action_runs_handler:
  "schema input \<Longrightarrow> defineAction schema handler input ctx e s = handler input ctx e s"
  by (simp add: defineAction_def)

lemma action_success:
  "defineAction schema handler input ctx e s = (Inr r, s') \<Longrightarrow>
   schema input \<and> handler input ctx e s = (Inr r, s')"
  by (simp add: defineAction_def split: if_splits)

lemma action_refusal:
  "\<not> schema input \<Longrightarrow> defineAction schema handler input ctx e s = (Inl VALIDATION, s)"
  by (simp add: defineAction_def)

section \<open>The ownership resolver\<close>

text \<open>
  C1. \<open>getOwnedPalette paletteId callerId\<close>, on a store that respects the primary key of
  \<^verbatim>\<open>ColorPalettes\<close>: if no palette row has the id \<open>paletteId\<close> it fails with \<open>NOT_FOUND\<close>; if
  the palette with that id has another \<open>userId\<close> than the caller and is not a system palette
  it fails with \<open>FORBIDDEN\<close>; otherwise it returns that palette row. Its only access to the
  store is one select on \<^verbatim>\<open>ColorPalettes\<close>.
\<close>

theorem getOwnedPalette_outcomes:
  assumes "primary_keys s"
  shows "((\<forall>p\<in>set (palettes s). palette_id p \<noteq> paletteId) \<longrightarrow>
            fst (getOwnedPalette paletteId userId s) = Inl NOT_FOUND) \<and>
         (\<forall>p\<in>set (palettes s).
            palette_id p = paletteId \<and> palette_userId p \<noteq> userId \<and> \<not> palette_isSystem p \<longrightarrow>
            fst (getOwnedPalette paletteId userId s) = Inl FORBIDDEN) \<and>
         (\<forall>p\<in>set (palettes s).
            palette_id p = paletteId \<and> \<not> (palette_userId p \<noteq> userId \<and> \<not> palette_isSystem p) \<longrightarrow>
            fst (getOwnedPalette paletteId userId s) = Inr p) \<and>
         snd (getOwnedPalette paletteId userId s) = s\<lparr>accesses := accesses s @ [Select ColorPalettes]\<rparr>"
proof -
  have nf: "fst (getOwnedPalette paletteId userId s) = Inl NOT_FOUND"
    if "\<forall>p\<in>set (palettes s). palette_id p \<noteq> paletteId"
  proof -
    from that have "filter (\<lambda>p. palette_id p = paletteId) (palettes s) = []"
      by (simp add: filter_empty_conv)
    then show ?thesis by (simp add: getOwnedPalette_fst)
  qed
  have found: "filter (\<lambda>q. palette_id q = paletteId) (palettes s) = [p]"
    if "p \<in> set (palettes s)" "palette_id p = paletteId" for p
    using assms that filter_primary_key [of palette_id "palettes s" p]
    by (simp add: primary_keys_def)
  have fb: "fst (getOwnedPalette paletteId userId s) = Inl FORBIDDEN"
    if "p \<in> set (palettes s)" "palette_id p = paletteId"
      "palette_userId p \<noteq> userId" "\<not> palette_isSystem p" for p
    using found [OF that(1,2)] that(3,4) by (simp add: getOwnedPalette_fst)
  have ok: "fst (getOwnedPalette paletteId userId s) = Inr p"
    if "p \<in> set (palettes s)" "palette_id p = paletteId"
      "\<not> (palette_userId p \<noteq> userId \<and> \<not> palette_isSystem p)" for p
    using found [OF that(1,2)] that(3) by (auto simp add: getOwnedPalette_fst)
  have st: "snd (getOwnedPalette paletteId userId s) =
      s\<lparr>accesses := accesses s @ [Select ColorPalettes]\<rparr>"
    by (simp add: getOwnedPalette_store record_access_def)
  from nf fb ok st show ?thesis by blast
qed

theorem getOwnedPalette_outcomes_witness:
  "primary_keys sample_store \<and>
   fst (getOwnedPalette ''p7'' ''bob'' sample_store) = Inl NOT_FOUND \<and>
   fst (getOwnedPalette ''p1'' ''bob'' sample_store) = Inl FORBIDDEN \<and>
   fst (getOwnedPalette ''p1'' ''alice'' sample_store) = Inr sunset \<and>
   fst (getOwnedPalette ''p2'' ''bob'' sample_store) = Inr curated \<and>
   accesses (snd (getOwnedPalette ''p2'' ''bob'' sample_store)) = [Select ColorPalettes]"
  using getOwnedPalette_outcomes [of sample_store "''p7''" "''bob''"]
    getOwnedPalette_outcomes [of sample_store "''p1''" "''bob''"]
    getOwnedPalette_outcomes [of sample_store "''p1''" "''alice''"]
    getOwnedPalette_outcomes [of sample_store "''p2''" "''bob''"]
  by (simp add: primary_keys_def sample_rows)

section \<open>The identity gate comes first\<close>

text \<open>
  C6. When the request context carries no caller identity, each of the seven handlers
  fails with \<open>UNAUTHORIZED\<close> and hands back the store exactly as it received it: the list
  of accesses has not grown, so no row was read or written and the ownership resolver,
  whose first step is a select on \<^verbatim>\<open>ColorPalettes\<close>, did not run. This holds for every input
  the handler can be given.
\<close>

theorem unauthenticated_calls_rejected_first:
  assumes "context_user ctx = None"
  shows "createPalette_handler i1 ctx e s = (Inl UNAUTHORIZED, s) \<and>
         updatePalette_handler i2 ctx e s = (Inl UNAUTHORIZED, s) \<and>
         listPalettes_handler i3 ctx e s = (Inl UNAUTHORIZED, s) \<and>
         createPaletteColor_handler i4 ctx e s = (Inl UNAUTHORIZED, s) \<and>
         updatePaletteColor_handler i5 ctx e s = (Inl UNAUTHORIZED, s) \<and>
         deletePaletteColor_handler i6 ctx e s = (Inl UNAUTHORIZED, s) \<and>
         listPaletteColors_handler i7 ctx e s = (Inl UNAUTHORIZED, s)"
proof -
  from assms have "requireUser ctx = Inl UNAUTHORIZED"
    by (simp add: requireUser_def)
  then show ?thesis
    by (simp add: createPalette_handler_def updatePalette_handler_def listPalettes_handler_def
        createPaletteColor_handler_def updatePaletteColor_handler_def
        deletePaletteColor_handler_def listPaletteColors_handler_def)
qed

theorem unauthenticated_calls_rejected_first_witness:
  "context_user anonymous = None \<and>
   createPalette_handler new_forest anonymous sample_env sample_store = (Inl UNAUTHORIZED, sample_store) \<and>
   updatePalette_handler favorite_sunset anonymous sample_env sample_store = (Inl UNAUTHORIZED, sample_store) \<and>
   listPalettes_handler everything anonymous sample_env sample_store = (Inl UNAUTHORIZED, sample_store) \<and>
   createPaletteColor_handler new_green anonymous sample_env sample_store = (Inl UNAUTHORIZED, sample_store) \<and>
   updatePaletteColor_handler repaint_orange anonymous sample_env sample_store = (Inl UNAUTHORIZED, sample_store) \<and>
   deletePaletteColor_handler remove_orange anonymous sample_env sample_store = (Inl UNAUTHORIZED, sample_store) \<and>
   listPaletteColors_handler colors_of_sunset anonymous sample_env sample_store = (Inl UNAUTHORIZED, sample_store) \<and>
   accesses sample_store = []"
proof -
  have h: "context_user anonymous = None"
    by (simp add: sample_callers)
  from h unauthenticated_calls_rejected_first [OF h, of new_forest sample_env sample_store
      favorite_sunset everything new_green repaint_orange remove_orange colors_of_sunset]
  show ?thesis by (simp add: sample_store_def)
qed

section \<open>A color is only reached through its own palette\<close>

text \<open>
  C3. The caller is signed in and the ownership resolver accepts the supplied \<open>paletteId\<close>.
  If no color row has both the supplied id and the supplied \<open>paletteId\<close> (the row with
  that id belongs to another palette, or there is none), then \<open>updatePaletteColor\<close> and
  \<open>deletePaletteColor\<close> fail with \<open>NOT_FOUND\<close>, and the store they leave differs from the
  one they found only in the list of accesses: no color row is modified or deleted.
\<close>

theorem color_parent_mismatch_is_not_found:
  assumes "requireUser ctx = Inr u"
  shows "((\<exists>p. fst (getOwnedPalette (uc_paletteId ui) (user_id u) s) = Inr p) \<and>
          (\<forall>c\<in>set (colors s). color_id c = uc_id ui \<longrightarrow> color_paletteId c \<noteq> uc_paletteId ui) \<longrightarrow>
          updatePaletteColor_handler ui ctx e s =
            (Inl NOT_FOUND, s\<lparr>accesses := accesses s @ [Select ColorPalettes, Select PaletteColors]\<rparr>)) \<and>
         ((\<exists>p. fst (getOwnedPalette (dc_paletteId di) (user_id u) s) = Inr p) \<and>
          (\<forall>c\<in>set (colors s). color_id c = dc_id di \<longrightarrow> color_paletteId c \<noteq> dc_paletteId di) \<longrightarrow>
          deletePaletteColor_handler di ctx e s =
            (Inl NOT_FOUND, s\<lparr>accesses := accesses s @ [Select ColorPalettes, Delete PaletteColors]\<rparr>))"
proof (intro conjI impI)
  assume a: "(\<exists>p. fst (getOwnedPalette (uc_paletteId ui) (user_id u) s) = Inr p) \<and>
          (\<forall>c\<in>set (colors s). color_id c = uc_id ui \<longrightarrow> color_paletteId c \<noteq> uc_paletteId ui)"
  then obtain p where p: "getOwnedPalette (uc_paletteId ui) (user_id u) s =
      (Inr p, record_access (Select ColorPalettes) s)"
    using getOwnedPalette_eq [of "uc_paletteId ui" "user_id u" s] by auto
  from a have "filter (\<lambda>c. color_id c = uc_id ui \<and> color_paletteId c = uc_paletteId ui) (colors s) = []"
    by (auto simp add: filter_empty_conv)
  with p assms show "updatePaletteColor_handler ui ctx e s =
            (Inl NOT_FOUND, s\<lparr>accesses := accesses s @ [Select ColorPalettes, Select PaletteColors]\<rparr>)"
    by (simp add: updatePaletteColor_handler_def db_select_colors_def record_access_def)
next
  assume a: "(\<exists>p. fst (getOwnedPalette (dc_paletteId di) (user_id u) s) = Inr p) \<and>
          (\<forall>c\<in>set (colors s). color_id c = dc_id di \<longrightarrow> color_paletteId c \<noteq> dc_paletteId di)"
  then obtain p where p: "getOwnedPalette (dc_paletteId di) (user_id u) s =
      (Inr p, record_access (Select ColorPalettes) s)"
    using getOwnedPalette_eq [of "dc_paletteId di" "user_id u" s] by auto
  from a have none: "filter (\<lambda>c. color_id c = dc_id di \<and> color_paletteId c = dc_paletteId di) (colors s) = []"
    by (auto simp add: filter_empty_conv)
  from a have all: "filter (\<lambda>c. \<not> (color_id c = dc_id di \<and> color_paletteId c = dc_paletteId di)) (colors s) = colors s"
    by (auto simp add: filter_id_conv)
  from p assms none all show "deletePaletteColor_handler di ctx e s =
            (Inl NOT_FOUND, s\<lparr>accesses := accesses s @ [Select ColorPalettes, Delete PaletteColors]\<rparr>)"
    by (simp add: deletePaletteColor_handler_def db_delete_colors_def record_access_def)
qed

theorem color_parent_mismatch_is_not_found_witness:
  "requireUser (signed_in alice) = Inr alice \<and>
   fst (getOwnedPalette (uc_paletteId misplaced_repaint) (user_id alice) sample_store) = Inr sunset \<and>
   fst (getOwnedPalette (dc_paletteId misplaced_remove) (user_id alice) sample_store) = Inr sunset \<and>
   teal \<in> set (colors sample_store) \<and> color_id teal = uc_id misplaced_repaint \<and>
   color_paletteId teal = ''p3'' \<and> uc_paletteId misplaced_repaint = ''p1'' \<and>
   updatePaletteColor_handler misplaced_repaint (signed_in alice) sample_env sample_store =
     (Inl NOT_FOUND, sample_store\<lparr>accesses := [Select ColorPalettes, Select PaletteColors]\<rparr>) \<and>
   deletePaletteColor_handler misplaced_remove (signed_in alice) sample_env sample_store =
     (Inl NOT_FOUND, sample_store\<lparr>accesses := [Select ColorPalettes, Delete PaletteColors]\<rparr>)"
proof -
  have h: "requireUser (signed_in alice) = Inr alice"
    by (simp add: requireUser_def sample_callers)
  from h color_parent_mismatch_is_not_found [OF h, where ui = misplaced_repaint
      and di = misplaced_remove and s = sample_store and e = sample_env]
  show ?thesis
    by (simp add: getOwnedPalette_fst sample_rows alice_def misplaced_repaint_def misplaced_remove_def)
qed

section \<open>Creating a palette\<close>

text \<open>
  C4. Whenever \<open>createPalette\<close> succeeds, whatever the input, it returns a row that is
  stored at the end of the table, with \<open>isSystem = false\<close>, with \<open>isFavorite\<close> the supplied
  value or \<open>false\<close> when none was supplied, with the generated identifier as its id, which
  no row of the table had before, and with \<open>createdAt = updatedAt\<close>.
\<close>

theorem createPalette_record:
  assumes "createPalette_handler input ctx e s = (Inr r, s')"
  shows "\<exists>p. r = Some p \<and>
           palette_isSystem p = False \<and>
           palette_isFavorite p = (case cp_isFavorite input of None \<Rightarrow> False | Some b \<Rightarrow> b) \<and>
           palette_id p = env_uuid e \<and>
           palette_id p \<notin> set (map palette_id (palettes s)) \<and>
           palette_createdAt p = palette_updatedAt p \<and>
           palettes s' = palettes s @ [p] \<and>
           colors s' = colors s"
  using assms
  by (auto simp add: createPalette_handler_def db_insert_palette_def first_row_def record_access_def
      split: sum.splits if_splits)

theorem createPalette_record_witness:
  "createPalette_handler new_forest (signed_in alice) sample_env sample_store =
     (Inr (Some forest),
      sample_store\<lparr>palettes := [sunset, curated, ocean, forest], accesses := [Insert ColorPalettes]\<rparr>) \<and>
   palette_isSystem forest = False \<and> palette_isFavorite forest = False \<and>
   palette_id forest = env_uuid sample_env \<and>
   palette_id forest \<notin> set (map palette_id (palettes sample_store)) \<and>
   palette_createdAt forest = palette_updatedAt forest"
proof -
  have h: "createPalette_handler new_forest (signed_in alice) sample_env sample_store =
     (Inr (Some forest),
      sample_store\<lparr>palettes := [sunset, curated, ocean, forest], accesses := [Insert ColorPalettes]\<rparr>)"
    by (simp add: createPalette_handler_def requireUser_def sample_callers db_insert_palette_def
        first_row_def record_access_def new_forest_def sample_rows)
  from h createPalette_record [OF h] show ?thesis
    by (auto simp add: new_forest_def)
qed

section \<open>Updating a palette\<close>

lemma requireUser_Some: "context_user ctx = Some u \<Longrightarrow> requireUser ctx = Inr u"
  by (simp add: requireUser_def)

lemma fold_updatePalette_set:
  "fold assign_palette (updatePalette_set input e) p = partial_update_palette input (env_now e) p"
  by (cases p) (simp add: updatePalette_set_def partial_update_palette_def split: option.splits)

lemma updatePalette_set_nonempty: "updatePalette_set input e \<noteq> []"
  by (simp add: updatePalette_set_def)

lemma updatePalette_handler_eq:
  "updatePalette_handler input ctx e s =
     (case requireUser ctx of
        Inl err \<Rightarrow> (Inl err, s)
      | Inr u \<Rightarrow>
          (case fst (getOwnedPalette (up_id input) (user_id u) s) of
             Inl err \<Rightarrow> (Inl err, s\<lparr>accesses := accesses s @ [Select ColorPalettes]\<rparr>)
           | Inr p \<Rightarrow>
               (Inr (first_row (map (partial_update_palette input (env_now e))
                        (filter (\<lambda>q. palette_id q = up_id input) (palettes s)))),
                s\<lparr>palettes := map (\<lambda>q. if palette_id q = up_id input
                                       then partial_update_palette input (env_now e) q else q) (palettes s),
                  accesses := accesses s @ [Select ColorPalettes, Update ColorPalettes]\<rparr>)))"
proof (cases "requireUser ctx")
  case (Inl err)
  then show ?thesis by (simp add: updatePalette_handler_def)
next
  case (Inr u)
  show ?thesis
  proof (cases "fst (getOwnedPalette (up_id input) (user_id u) s)")
    case (Inl err)
    with Inr getOwnedPalette_eq [of "up_id input" "user_id u" s] show ?thesis
      by (simp add: updatePalette_handler_def record_access_def)
  next
    case r: (Inr p)
    with Inr getOwnedPalette_eq [of "up_id input" "user_id u" s] show ?thesis
      by (simp add: updatePalette_handler_def record_access_def db_update_palettes_def
          updatePalette_set_nonempty fold_updatePalette_set cong: map_cong)
  qed
qed

lemma getOwnedPalette_Inr:
  assumes "fst (getOwnedPalette paletteId userId s) = Inr p"
  shows "\<exists>rest. filter (\<lambda>q. palette_id q = paletteId) (palettes s) = p # rest"
  using assms by (auto simp add: getOwnedPalette_fst split: list.splits if_splits)

text \<open>
  C5. \<open>updatePalette\<close> accepts a request only when at least one of \<open>name\<close>, \<open>description\<close>,
  \<open>sourceType\<close>, \<open>sourceReference\<close>, \<open>isFavorite\<close> is present: with none of them it fails
  validation and the store is returned untouched, with no access recorded. When it
  succeeds, the returned row and every stored row with the addressed id are the prior
  row with exactly the present fields applied, the absent ones kept, and \<open>updatedAt\<close> set
  to the current time (\<open>partial_update_palette\<close>); nothing else in the store changes.
\<close>

theorem updatePalette_partial_update:
  "(up_name input = None \<and> up_description input = None \<and> up_sourceType input = None \<and>
    up_sourceReference input = None \<and> up_isFavorite input = None \<longrightarrow>
      updatePalette input ctx e s = (Inl VALIDATION, s)) \<and>
   (updatePalette input ctx e s = (Inr r, s') \<longrightarrow>
      \<not> (up_name input = None \<and> up_description input = None \<and> up_sourceType input = None \<and>
         up_sourceReference input = None \<and> up_isFavorite input = None) \<and>
      (\<exists>p\<in>set (palettes s). palette_id p = up_id input \<and>
         r = Some (partial_update_palette input (env_now e) p)) \<and>
      palettes s' = map (\<lambda>q. if palette_id q = up_id input
                              then partial_update_palette input (env_now e) q else q) (palettes s) \<and>
      colors s' = colors s)"
proof (intro conjI impI)
  assume "up_name input = None \<and> up_description input = None \<and> up_sourceType input = None \<and>
    up_sourceReference input = None \<and> up_isFavorite input = None"
  then show "updatePalette input ctx e s = (Inl VALIDATION, s)"
    by (simp add: updatePalette_def defineAction_def updatePalette_schema_def)
next
  assume ok: "updatePalette input ctx e s = (Inr r, s')"
  then have schema: "updatePalette_schema input"
    by (auto simp add: updatePalette_def defineAction_def split: if_splits)
  then show "\<not> (up_name input = None \<and> up_description input = None \<and> up_sourceType input = None \<and>
         up_sourceReference input = None \<and> up_isFavorite input = None)"
    by (auto simp add: updatePalette_schema_def)
  from ok schema have run: "updatePalette_handler input ctx e s = (Inr r, s')"
    by (simp add: updatePalette_def defineAction_def)
  then obtain u where u: "requireUser ctx = Inr u"
    by (cases "requireUser ctx") (auto simp add: updatePalette_handler_eq)
  with run obtain p where p: "fst (getOwnedPalette (up_id input) (user_id u) s) = Inr p"
    by (cases "fst (getOwnedPalette (up_id input) (user_id u) s)") (auto simp add: updatePalette_handler_eq)
  from getOwnedPalette_Inr [OF p] obtain rest
    where rows: "filter (\<lambda>q. palette_id q = up_id input) (palettes s) = p # rest" ..
  then have "p \<in> set (filter (\<lambda>q. palette_id q = up_id input) (palettes s))" by simp
  then have mem: "p \<in> set (palettes s)" and pid: "palette_id p = up_id input" by auto
  from run u p rows have "r = Some (partial_update_palette input (env_now e) p)"
    by (auto simp add: updatePalette_handler_eq first_row_def)
  with mem pid show "\<exists>p\<in>set (palettes s). palette_id p = up_id input \<and>
         r = Some (partial_update_palette input (env_now e) p)" by blast
  from run u p show "palettes s' = map (\<lambda>q. if palette_id q = up_id input
                              then partial_update_palette input (env_now e) q else q) (palettes s)"
    by (auto simp add: updatePalette_handler_eq)
  from run u p show "colors s' = colors s"
    by (auto simp add: updatePalette_handler_eq)
qed


theorem updatePalette_partial_update_witness:
  "updatePalette touch_nothing (signed_in alice) sample_env sample_store = (Inl VALIDATION, sample_store) \<and>
   updatePalette favorite_sunset (signed_in alice) sample_env sample_store =
     (Inr (Some (sunset\<lparr>palette_isFavorite := True, palette_updatedAt := 2000\<rparr>)),
      sample_store\<lparr>palettes := [sunset\<lparr>palette_isFavorite := True, palette_updatedAt := 2000\<rparr>, curated, ocean],
                   accesses := [Select ColorPalettes, Update ColorPalettes]\<rparr>) \<and>
   up_isFavorite favorite_sunset \<noteq> None \<and>
   map (\<lambda>q. if palette_id q = up_id favorite_sunset
           then partial_update_palette favorite_sunset (env_now sample_env) q else q) (palettes sample_store) =
     [sunset\<lparr>palette_isFavorite := True, palette_updatedAt := 2000\<rparr>, curated, ocean]"
proof -
  have none: "up_name touch_nothing = None \<and> up_description touch_nothing = None \<and>
      up_sourceType touch_nothing = None \<and> up_sourceReference touch_nothing = None \<and>
      up_isFavorite touch_nothing = None"
    by (simp add: touch_nothing_def)
  have refused: "updatePalette touch_nothing (signed_in alice) sample_env sample_store =
      (Inl VALIDATION, sample_store)"
    using updatePalette_partial_update [where input = touch_nothing, THEN conjunct1] none
    by (rule mp)
  have run: "updatePalette favorite_sunset (signed_in alice) sample_env sample_store =
     (Inr (Some (sunset\<lparr>palette_isFavorite := True, palette_updatedAt := 2000\<rparr>)),
      sample_store\<lparr>palettes := [sunset\<lparr>palette_isFavorite := True, palette_updatedAt := 2000\<rparr>, curated, ocean],
                   accesses := [Select ColorPalettes, Update ColorPalettes]\<rparr>)"
    by (simp add: updatePalette_def defineAction_def updatePalette_schema_def updatePalette_handler_def
        requireUser_def sample_callers getOwnedPalette_def db_select_palettes_def db_update_palettes_def
        updatePalette_set_def first_row_def record_access_def favorite_sunset_def sample_rows)
  note applied = updatePalette_partial_update [THEN conjunct2, rule_format, OF run]
  from applied have stored: "map (\<lambda>q. if palette_id q = up_id favorite_sunset
           then partial_update_palette favorite_sunset (env_now sample_env) q else q) (palettes sample_store) =
     [sunset\<lparr>palette_isFavorite := True, palette_updatedAt := 2000\<rparr>, curated, ocean]"
    by simp
  have "up_isFavorite favorite_sunset \<noteq> None"
    by (simp add: favorite_sunset_def)
  with refused run stored show ?thesis by simp
qed

section \<open>Listing palettes\<close>

lemma and_filters_fun: "and_filters fs = (\<lambda>row. list_all (\<lambda>f. f row) fs)"
  by (rule ext) (simp add: and_filters_def)

text \<open>
  C7. For a signed-in caller \<open>listPalettes\<close> succeeds and returns exactly the rows of the
  table whose \<open>userId\<close> is the caller's id or whose \<open>isSystem\<close> flag is set; with
  \<open>favoritesOnly\<close> it returns exactly those of them whose \<open>isFavorite\<close> flag is set. In
  both cases \<open>total\<close> is the number of returned items.
\<close>

theorem listPalettes_result:
  assumes "context_user ctx = Some u"
  shows "\<exists>r. listPalettes_handler input ctx e s =
              (Inr r, s\<lparr>accesses := accesses s @ [Select ColorPalettes]\<rparr>) \<and>
           (\<not> lp_favoritesOnly input \<longrightarrow>
              items r = filter (\<lambda>p. palette_userId p = user_id u \<or> palette_isSystem p) (palettes s)) \<and>
           (lp_favoritesOnly input \<longrightarrow>
              items r = filter palette_isFavorite
                          (filter (\<lambda>p. palette_userId p = user_id u \<or> palette_isSystem p) (palettes s))) \<and>
           total r = length (items r)"
  using requireUser_Some [OF assms]
  by (simp add: listPalettes_handler_def db_select_palettes_def listPalettes_filters_def
      and_filters_fun record_access_def)

theorem listPalettes_result_witness:
  "context_user (signed_in alice) = Some alice \<and>
   listPalettes_handler everything (signed_in alice) sample_env sample_store =
     (Inr \<lparr>items = [sunset, curated, ocean], total = 3\<rparr>,
      sample_store\<lparr>accesses := [Select ColorPalettes]\<rparr>) \<and>
   listPalettes_handler favorites (signed_in alice) sample_env sample_store =
     (Inr \<lparr>items = [ocean], total = 1\<rparr>,
      sample_store\<lparr>accesses := [Select ColorPalettes]\<rparr>)"
proof -
  have h: "context_user (signed_in alice) = Some alice"
    by (simp add: sample_callers)
  from listPalettes_result [OF h, of everything sample_env sample_store]
  obtain r1 where r1: "listPalettes_handler everything (signed_in alice) sample_env sample_store =
      (Inr r1, sample_store\<lparr>accesses := accesses sample_store @ [Select ColorPalettes]\<rparr>)"
    and "items r1 = filter (\<lambda>p. palette_userId p = user_id alice \<or> palette_isSystem p) (palettes sample_store)"
    and "total r1 = length (items r1)"
    by (auto simp add: everything_def)
  then have "items r1 = [sunset, curated, ocean]" and "total r1 = 3"
    by (simp_all add: sample_rows alice_def)
  then have e1: "r1 = \<lparr>items = [sunset, curated, ocean], total = 3\<rparr>"
    by (cases r1) simp
  from listPalettes_result [OF h, of favorites sample_env sample_store]
  obtain r2 where r2: "listPalettes_handler favorites (signed_in alice) sample_env sample_store =
      (Inr r2, sample_store\<lparr>accesses := accesses sample_store @ [Select ColorPalettes]\<rparr>)"
    and "items r2 = filter palette_isFavorite
       (filter (\<lambda>p. palette_userId p = user_id alice \<or> palette_isSystem p) (palettes sample_store))"
    and "total r2 = length (items r2)"
    by (auto simp add: favorites_def)
  then have "items r2 = [ocean]" and "total r2 = 1"
    by (simp_all add: sample_rows alice_def)
  then have e2: "r2 = \<lparr>items = [ocean], total = 1\<rparr>"
    by (cases r2) simp
  have "accesses sample_store = []" by (simp add: sample_store_def)
  with h r1 r2 e1 e2 show ?thesis by simp
qed

section \<open>Who may update a palette\<close>

text \<open>
  C2, as stated, fails: the ownership resolver lets every signed-in caller through when
  the palette is a system palette. Bob is not the owner of the system palette \<open>p2\<close>, yet
  his \<open>updatePalette\<close> call succeeds and the stored row is changed.
\<close>

theorem system_palette_updated_by_other_user:
  "context_user (signed_in bob) = Some bob \<and>
   curated \<in> set (palettes sample_store) \<and>
   palette_id curated = up_id rename_curated \<and>
   user_id bob \<noteq> palette_userId curated \<and>
   updatePalette rename_curated (signed_in bob) sample_env sample_store =
     (Inr (Some (curated\<lparr>palette_name := ''Mine'', palette_updatedAt := 2000\<rparr>)),
      sample_store\<lparr>palettes := [sunset, curated\<lparr>palette_name := ''Mine'', palette_updatedAt := 2000\<rparr>, ocean],
                   accesses := [Select ColorPalettes, Update ColorPalettes]\<rparr>) \<and>
   curated\<lparr>palette_name := ''Mine'', palette_updatedAt := 2000\<rparr> \<noteq> curated"
  by (simp add: updatePalette_def defineAction_def updatePalette_schema_def updatePalette_handler_def
        requireUser_def sample_callers getOwnedPalette_def db_select_palettes_def db_update_palettes_def
        updatePalette_set_def first_row_def record_access_def rename_curated_def sample_rows)

text \<open>
  C2, amended. On a store that respects the primary key, for every \<open>updatePalette\<close> call
  by a signed-in caller whose id is not the \<open>userId\<close> stored on the addressed palette, and
  where that palette is not a system palette: the handler fails with \<open>FORBIDDEN\<close> after a
  single select, the action fails, and both tables are left as they were.
\<close>

theorem updatePalette_refuses_other_users:
  assumes "context_user ctx = Some u" and "primary_keys s"
    and "p \<in> set (palettes s)" and "palette_id p = up_id input"
    and "palette_userId p \<noteq> user_id u" and "\<not> palette_isSystem p"
  shows "updatePalette_handler input ctx e s =
           (Inl FORBIDDEN, s\<lparr>accesses := accesses s @ [Select ColorPalettes]\<rparr>) \<and>
         (\<exists>err. fst (updatePalette input ctx e s) = Inl err) \<and>
         palettes (snd (updatePalette input ctx e s)) = palettes s \<and>
         colors (snd (updatePalette input ctx e s)) = colors s"
proof -
  from assms(2,3,4) have "filter (\<lambda>q. palette_id q = up_id input) (palettes s) = [p]"
    using filter_primary_key [of palette_id "palettes s" p] by (simp add: primary_keys_def)
  with assms(5,6) have "fst (getOwnedPalette (up_id input) (user_id u) s) = Inl FORBIDDEN"
    by (simp add: getOwnedPalette_fst)
  with requireUser_Some [OF assms(1)]
  have h: "updatePalette_handler input ctx e s =
           (Inl FORBIDDEN, s\<lparr>accesses := accesses s @ [Select ColorPalettes]\<rparr>)"
    by (simp add: updatePalette_handler_eq)
  then show ?thesis
    by (simp add: updatePalette_def defineAction_def)
qed

theorem updatePalette_refuses_other_users_witness:
  "context_user (signed_in bob) = Some bob \<and> primary_keys sample_store \<and>
   sunset \<in> set (palettes sample_store) \<and> palette_id sunset = up_id favorite_sunset \<and>
   palette_userId sunset \<noteq> user_id bob \<and> \<not> palette_isSystem sunset \<and>
   updatePalette_handler favorite_sunset (signed_in bob) sample_env sample_store =
     (Inl FORBIDDEN, sample_store\<lparr>accesses := [Select ColorPalettes]\<rparr>) \<and>
   palettes (snd (updatePalette favorite_sunset (signed_in bob) sample_env sample_store)) =
     [sunset, curated, ocean]"
proof -
  have h: "context_user (signed_in bob) = Some bob" "primary_keys sample_store"
    "sunset \<in> set (palettes sample_store)" "palette_id sunset = up_id favorite_sunset"
    "palette_userId sunset \<noteq> user_id bob" "\<not> palette_isSystem sunset"
    by (simp_all add: sample_callers primary_keys_def sample_rows favorite_sunset_def)
  have "accesses sample_store = []" "palettes sample_store = [sunset, curated, ocean]"
    by (simp_all add: sample_store_def)
  with h updatePalette_refuses_other_users [OF h, of sample_env] show ?thesis
    by simp
qed

section \<open>Updating twice\<close>

lemma fold_updatePaletteColor_set:
  "fold assign_color (updatePaletteColor_set input) c = partial_update_color input c"
  by (cases c) (simp add: updatePaletteColor_set_def partial_update_color_def split: option.splits)

lemma updatePaletteColor_handler_eq:
  "updatePaletteColor_handler input ctx e s =
     (case requireUser ctx of
        Inl err \<Rightarrow> (Inl err, s)
      | Inr u \<Rightarrow>
          (case fst (getOwnedPalette (uc_paletteId input) (user_id u) s) of
             Inl err \<Rightarrow> (Inl err, s\<lparr>accesses := accesses s @ [Select ColorPalettes]\<rparr>)
           | Inr p \<Rightarrow>
               (if filter (\<lambda>c. color_id c = uc_id input \<and> color_paletteId c = uc_paletteId input)
                     (colors s) = []
                then (Inl NOT_FOUND,
                      s\<lparr>accesses := accesses s @ [Select ColorPalettes, Select PaletteColors]\<rparr>)
                else if updatePaletteColor_set input = []
                then (Inl STORE_FAULT,
                      s\<lparr>accesses := accesses s @
                          [Select ColorPalettes, Select PaletteColors, Update PaletteColors]\<rparr>)
                else (Inr (first_row (map (partial_update_color input)
                             (filter (\<lambda>c. color_id c = uc_id input) (colors s)))),
                      s\<lparr>colors := map (\<lambda>c. if color_id c = uc_id input
                                          then partial_update_color input c else c) (colors s),
                        accesses := accesses s @
                          [Select ColorPalettes, Select PaletteColors, Update PaletteColors]\<rparr>))))"
proof (cases "requireUser ctx")
  case (Inl err)
  then show ?thesis by (simp add: updatePaletteColor_handler_def)
next
  case (Inr u)
  show ?thesis
  proof (cases "fst (getOwnedPalette (uc_paletteId input) (user_id u) s)")
    case (Inl err)
    with Inr getOwnedPalette_eq [of "uc_paletteId input" "user_id u" s] show ?thesis
      by (simp add: updatePaletteColor_handler_def record_access_def)
  next
    case r: (Inr p)
    with Inr getOwnedPalette_eq [of "uc_paletteId input" "user_id u" s] show ?thesis
      by (simp add: updatePaletteColor_handler_def record_access_def db_select_colors_def
          db_update_colors_def fold_updatePaletteColor_set split: list.splits cong: map_cong)
  qed
qed

lemma partial_update_palette_fixed [simp]:
  "palette_id (partial_update_palette input now p) = palette_id p"
  "palette_userId (partial_update_palette input now p) = palette_userId p"
  "palette_isSystem (partial_update_palette input now p) = palette_isSystem p"
  "palette_createdAt (partial_update_palette input now p) = palette_createdAt p"
  by (simp_all add: partial_update_palette_def)

lemma partial_update_color_fixed [simp]:
  "color_id (partial_update_color input c) = color_id c"
  "color_paletteId (partial_update_color input c) = color_paletteId c"
  "color_createdAt (partial_update_color input c) = color_createdAt c"
  by (simp_all add: partial_update_color_def)

lemma partial_update_palette_twice:
  "without_updatedAt (partial_update_palette input n2 (partial_update_palette input n1 p)) =
   without_updatedAt (partial_update_palette input n1 p)"
  by (simp add: partial_update_palette_def without_updatedAt_def split: option.splits)

lemma partial_update_color_twice:
  "partial_update_color input (partial_update_color input c) = partial_update_color input c"
  by (simp add: partial_update_color_def split: option.splits)

lemma getOwnedPalette_same_palettes:
  "palettes s' = palettes s \<Longrightarrow>
   fst (getOwnedPalette paletteId userId s') = fst (getOwnedPalette paletteId userId s)"
  by (simp add: getOwnedPalette_fst)

lemma filter_updated_palettes:
  "filter (\<lambda>q. palette_id q = i)
     (map (\<lambda>q. if palette_id q = i then partial_update_palette input n q else q) ps) =
   map (partial_update_palette input n) (filter (\<lambda>q. palette_id q = i) ps)"
  by (induction ps) simp_all

lemma filter_updated_colors:
  "filter (\<lambda>c. color_id c = i)
     (map (\<lambda>c. if color_id c = i then partial_update_color input c else c) cs) =
   map (partial_update_color input) (filter (\<lambda>c. color_id c = i) cs)"
  by (induction cs) simp_all

lemma filter_updated_colors_parent:
  "filter (\<lambda>c. color_id c = i \<and> color_paletteId c = j)
     (map (\<lambda>c. if color_id c = i then partial_update_color input c else c) cs) =
   map (partial_update_color input) (filter (\<lambda>c. color_id c = i \<and> color_paletteId c = j) cs)"
  by (induction cs) simp_all

lemma getOwnedPalette_after_update:
  "fst (getOwnedPalette i uid
          (s\<lparr>palettes := map (\<lambda>q. if palette_id q = i then partial_update_palette input n q else q)
                             (palettes s),
             accesses := a\<rparr>)) =
   map_sum (\<lambda>err. err) (partial_update_palette input n) (fst (getOwnedPalette i uid s))"
  by (cases "filter (\<lambda>q. palette_id q = i) (palettes s)")
    (simp_all add: getOwnedPalette_fst filter_updated_palettes)


lemma updated_palette_twice:
  "without_updatedAt
     ((\<lambda>q. if palette_id q = i then partial_update_palette input n2 q else q)
        ((\<lambda>q. if palette_id q = i then partial_update_palette input n1 q else q) q)) =
   without_updatedAt ((\<lambda>q. if palette_id q = i then partial_update_palette input n1 q else q) q)"
  by (simp add: partial_update_palette_twice)

lemma updatePalette_twice:
  "map without_updatedAt
      (palettes (snd (updatePalette_handler input ctx e2 (snd (updatePalette_handler input ctx e1 s))))) =
   map without_updatedAt (palettes (snd (updatePalette_handler input ctx e1 s))) \<and>
   colors (snd (updatePalette_handler input ctx e2 (snd (updatePalette_handler input ctx e1 s)))) =
   colors (snd (updatePalette_handler input ctx e1 s)) \<and>
   map_sum (\<lambda>err. err) (map_option without_updatedAt)
     (fst (updatePalette_handler input ctx e2 (snd (updatePalette_handler input ctx e1 s)))) =
   map_sum (\<lambda>err. err) (map_option without_updatedAt) (fst (updatePalette_handler input ctx e1 s))"
proof (cases "requireUser ctx")
  case (Inl err)
  then show ?thesis by (simp add: updatePalette_handler_eq)
next
  case u: (Inr u)
  show ?thesis
  proof (cases "fst (getOwnedPalette (up_id input) (user_id u) s)")
    case (Inl err)
    with u have one: "updatePalette_handler input ctx e1 s =
        (Inl err, s\<lparr>accesses := accesses s @ [Select ColorPalettes]\<rparr>)"
      by (simp add: updatePalette_handler_eq)
    from Inl have "fst (getOwnedPalette (up_id input) (user_id u)
        (s\<lparr>accesses := accesses s @ [Select ColorPalettes]\<rparr>)) = Inl err"
      by (simp add: getOwnedPalette_fst)
    with u have two: "updatePalette_handler input ctx e2 (s\<lparr>accesses := accesses s @ [Select ColorPalettes]\<rparr>) =
        (Inl err, s\<lparr>accesses := accesses s @ [Select ColorPalettes, Select ColorPalettes]\<rparr>)"
      by (simp add: updatePalette_handler_eq)
    from one two show ?thesis by simp
  next
    case (Inr p)
    let ?upd1 = "\<lambda>q. if palette_id q = up_id input then partial_update_palette input (env_now e1) q else q"
    let ?upd2 = "\<lambda>q. if palette_id q = up_id input then partial_update_palette input (env_now e2) q else q"
    let ?s1 = "s\<lparr>palettes := map ?upd1 (palettes s),
                  accesses := accesses s @ [Select ColorPalettes, Update ColorPalettes]\<rparr>"
    from getOwnedPalette_Inr [OF Inr] obtain rest
      where rows: "filter (\<lambda>q. palette_id q = up_id input) (palettes s) = p # rest" ..
    from u Inr rows have one: "updatePalette_handler input ctx e1 s =
        (Inr (Some (partial_update_palette input (env_now e1) p)), ?s1)"
      by (simp add: updatePalette_handler_eq first_row_def)
    from Inr have res: "fst (getOwnedPalette (up_id input) (user_id u) ?s1) =
        Inr (partial_update_palette input (env_now e1) p)"
      by (simp add: getOwnedPalette_after_update)
    from rows have rows1: "filter (\<lambda>q. palette_id q = up_id input) (palettes ?s1) =
        partial_update_palette input (env_now e1) p # map (partial_update_palette input (env_now e1)) rest"
      by (simp add: filter_updated_palettes)
    from u res rows1 have two: "updatePalette_handler input ctx e2 ?s1 =
        (Inr (Some (partial_update_palette input (env_now e2) (partial_update_palette input (env_now e1) p))),
         ?s1\<lparr>palettes := map ?upd2 (palettes ?s1),
              accesses := accesses ?s1 @ [Select ColorPalettes, Update ColorPalettes]\<rparr>)"
      by (simp only: updatePalette_handler_eq [of input ctx e2 ?s1] sum.case list.map first_row_def
          list.case)
    have "map without_updatedAt (map ?upd2 (map ?upd1 (palettes s))) =
          map without_updatedAt (map ?upd1 (palettes s))"
      unfolding map_map comp_def by (rule map_cong [OF refl]) (rule updated_palette_twice)
    with one two show ?thesis
      by (simp add: partial_update_palette_twice)
  qed
qed


lemma updatePaletteColor_twice:
  "colors (snd (updatePaletteColor_handler input ctx e2 (snd (updatePaletteColor_handler input ctx e1 s)))) =
   colors (snd (updatePaletteColor_handler input ctx e1 s)) \<and>
   palettes (snd (updatePaletteColor_handler input ctx e2 (snd (updatePaletteColor_handler input ctx e1 s)))) =
   palettes (snd (updatePaletteColor_handler input ctx e1 s)) \<and>
   fst (updatePaletteColor_handler input ctx e2 (snd (updatePaletteColor_handler input ctx e1 s))) =
   fst (updatePaletteColor_handler input ctx e1 s)"
proof (cases "requireUser ctx")
  case (Inl err)
  then show ?thesis by (simp add: updatePaletteColor_handler_eq)
next
  case u: (Inr u)
  show ?thesis
  proof (cases "fst (getOwnedPalette (uc_paletteId input) (user_id u) s)")
    case (Inl err)
    with u have one: "updatePaletteColor_handler input ctx e1 s =
        (Inl err, s\<lparr>accesses := accesses s @ [Select ColorPalettes]\<rparr>)"
      by (simp add: updatePaletteColor_handler_eq)
    from Inl have "fst (getOwnedPalette (uc_paletteId input) (user_id u)
        (s\<lparr>accesses := accesses s @ [Select ColorPalettes]\<rparr>)) = Inl err"
      by (simp add: getOwnedPalette_fst)
    with u have two: "updatePaletteColor_handler input ctx e2 (s\<lparr>accesses := accesses s @ [Select ColorPalettes]\<rparr>) =
        (Inl err, s\<lparr>accesses := accesses s @ [Select ColorPalettes, Select ColorPalettes]\<rparr>)"
      by (simp add: updatePaletteColor_handler_eq)
    from one two show ?thesis by simp
  next
    case (Inr p)
    let ?found = "filter (\<lambda>c. color_id c = uc_id input \<and> color_paletteId c = uc_paletteId input) (colors s)"
    let ?upd = "\<lambda>c. if color_id c = uc_id input then partial_update_color input c else c"
    have again: "fst (getOwnedPalette (uc_paletteId input) (user_id u) (s\<lparr>colors := cs, accesses := a\<rparr>)) = Inr p"
      for cs a
      using Inr by (simp add: getOwnedPalette_fst)
    have again': "fst (getOwnedPalette (uc_paletteId input) (user_id u) (s\<lparr>accesses := a\<rparr>)) = Inr p"
      for a
      using Inr by (simp add: getOwnedPalette_fst)
    consider (missing) "?found = []"
      | (nothing) "?found \<noteq> []" "updatePaletteColor_set input = []"
      | (applied) "?found \<noteq> []" "updatePaletteColor_set input \<noteq> []"
      by blast
    then show ?thesis
    proof cases
      case missing
      with u Inr again' show ?thesis
        by (simp add: updatePaletteColor_handler_eq)
    next
      case nothing
      with u Inr again' show ?thesis
        by (simp add: updatePaletteColor_handler_eq)
    next
      case applied
      from applied have found1: "filter (\<lambda>c. color_id c = uc_id input \<and> color_paletteId c = uc_paletteId input)
          (map ?upd (colors s)) \<noteq> []"
        by (simp add: filter_updated_colors_parent)
      have twice: "map ?upd (map ?upd (colors s)) = map ?upd (colors s)"
        unfolding map_map comp_def
        by (rule map_cong [OF refl]) (simp add: partial_update_color_twice)
      have rows: "map (partial_update_color input)
           (filter (\<lambda>c. color_id c = uc_id input) (map ?upd (colors s))) =
         map (partial_update_color input) (filter (\<lambda>c. color_id c = uc_id input) (colors s))"
        by (simp add: filter_updated_colors partial_update_color_twice)
      from u Inr applied have one: "updatePaletteColor_handler input ctx e1 s =
          (Inr (first_row (map (partial_update_color input)
                  (filter (\<lambda>c. color_id c = uc_id input) (colors s)))),
           s\<lparr>colors := map ?upd (colors s),
             accesses := accesses s @ [Select ColorPalettes, Select PaletteColors, Update PaletteColors]\<rparr>)"
        by (simp add: updatePaletteColor_handler_eq)
      from u again applied(2) found1 twice rows show ?thesis
        unfolding one by (simp add: updatePaletteColor_handler_eq)
    qed
  qed
qed


text \<open>
  C8. Applying the same partial update twice in a row gives the same final field values
  as applying it once. For \<open>updatePalette\<close>, whatever the two times of the calls, the
  palette table after the second call equals the table after the first once \<open>updatedAt\<close>
  is blanked, the colors are the same, and so is the result up to \<open>updatedAt\<close>. For
  \<open>updatePaletteColor\<close> both tables and the result are the same after the second call as
  after the first. A call whose input passes its schema runs the handler on that input,
  so this covers every valid input.
\<close>

theorem partial_update_idempotent:
  "(let once = updatePalette_handler pu ctx e1 s;
        twice = updatePalette_handler pu ctx e2 (snd once)
    in map without_updatedAt (palettes (snd twice)) = map without_updatedAt (palettes (snd once)) \<and>
       colors (snd twice) = colors (snd once) \<and>
       map_sum (\<lambda>err. err) (map_option without_updatedAt) (fst twice) =
       map_sum (\<lambda>err. err) (map_option without_updatedAt) (fst once)) \<and>
   (let once = updatePaletteColor_handler cu ctx e1 s;
        twice = updatePaletteColor_handler cu ctx e2 (snd once)
    in colors (snd twice) = colors (snd once) \<and>
       palettes (snd twice) = palettes (snd once) \<and>
       fst twice = fst once)"
  unfolding Let_def
  using updatePalette_twice [of pu ctx e2 e1 s] updatePaletteColor_twice [of cu ctx e2 e1 s]
  by (rule conjI)


theorem partial_update_idempotent_witness:
  "updatePalette_handler favorite_sunset (signed_in alice) sample_env sample_store =
     (Inr (Some (sunset\<lparr>palette_isFavorite := True, palette_updatedAt := 2000\<rparr>)),
      sample_store\<lparr>palettes := [sunset\<lparr>palette_isFavorite := True, palette_updatedAt := 2000\<rparr>, curated, ocean],
                   accesses := [Select ColorPalettes, Update ColorPalettes]\<rparr>) \<and>
   updatePalette_handler favorite_sunset (signed_in alice) later_env
      (sample_store\<lparr>palettes := [sunset\<lparr>palette_isFavorite := True, palette_updatedAt := 2000\<rparr>, curated, ocean],
                   accesses := [Select ColorPalettes, Update ColorPalettes]\<rparr>) =
     (Inr (Some (sunset\<lparr>palette_isFavorite := True, palette_updatedAt := 3000\<rparr>)),
      sample_store\<lparr>palettes := [sunset\<lparr>palette_isFavorite := True, palette_updatedAt := 3000\<rparr>, curated, ocean],
                   accesses := [Select ColorPalettes, Update ColorPalettes,
                                Select ColorPalettes, Update ColorPalettes]\<rparr>) \<and>
   map without_updatedAt [sunset\<lparr>palette_isFavorite := True, palette_updatedAt := 3000\<rparr>, curated, ocean] =
   map without_updatedAt [sunset\<lparr>palette_isFavorite := True, palette_updatedAt := 2000\<rparr>, curated, ocean] \<and>
   updatePaletteColor_handler repaint_orange (signed_in alice) sample_env sample_store =
     (Inr (Some (orange\<lparr>color_hexValue := ''#FF0000'', color_label := Some ''Red''\<rparr>)),
      sample_store\<lparr>colors := [orange\<lparr>color_hexValue := ''#FF0000'', color_label := Some ''Red''\<rparr>, teal],
         accesses := [Select ColorPalettes, Select PaletteColors, Update PaletteColors]\<rparr>) \<and>
   colors (snd (updatePaletteColor_handler repaint_orange (signed_in alice) later_env
      (sample_store\<lparr>colors := [orange\<lparr>color_hexValue := ''#FF0000'', color_label := Some ''Red''\<rparr>, teal],
         accesses := [Select ColorPalettes, Select PaletteColors, Update PaletteColors]\<rparr>))) =
     [orange\<lparr>color_hexValue := ''#FF0000'', color_label := Some ''Red''\<rparr>, teal]"
proof -
  have p1: "updatePalette_handler favorite_sunset (signed_in alice) sample_env sample_store =
     (Inr (Some (sunset\<lparr>palette_isFavorite := True, palette_updatedAt := 2000\<rparr>)),
      sample_store\<lparr>palettes := [sunset\<lparr>palette_isFavorite := True, palette_updatedAt := 2000\<rparr>, curated, ocean],
                   accesses := [Select ColorPalettes, Update ColorPalettes]\<rparr>)"
    by (simp add: updatePalette_handler_def
        requireUser_def sample_callers getOwnedPalette_def db_select_palettes_def db_update_palettes_def
        updatePalette_set_def first_row_def record_access_def favorite_sunset_def sample_rows)
  have p2: "updatePalette_handler favorite_sunset (signed_in alice) later_env
      (sample_store\<lparr>palettes := [sunset\<lparr>palette_isFavorite := True, palette_updatedAt := 2000\<rparr>, curated, ocean],
                   accesses := [Select ColorPalettes, Update ColorPalettes]\<rparr>) =
     (Inr (Some (sunset\<lparr>palette_isFavorite := True, palette_updatedAt := 3000\<rparr>)),
      sample_store\<lparr>palettes := [sunset\<lparr>palette_isFavorite := True, palette_updatedAt := 3000\<rparr>, curated, ocean],
                   accesses := [Select ColorPalettes, Update ColorPalettes,
                                Select ColorPalettes, Update ColorPalettes]\<rparr>)"
    by (simp add: updatePalette_handler_def
        requireUser_def sample_callers getOwnedPalette_def db_select_palettes_def db_update_palettes_def
        updatePalette_set_def first_row_def record_access_def favorite_sunset_def sample_rows)
  have c1: "updatePaletteColor_handler repaint_orange (signed_in alice) sample_env sample_store =
     (Inr (Some (orange\<lparr>color_hexValue := ''#FF0000'', color_label := Some ''Red''\<rparr>)),
      sample_store\<lparr>colors := [orange\<lparr>color_hexValue := ''#FF0000'', color_label := Some ''Red''\<rparr>, teal],
         accesses := [Select ColorPalettes, Select PaletteColors, Update PaletteColors]\<rparr>)"
    by (simp add: updatePaletteColor_handler_def
        requireUser_def sample_callers getOwnedPalette_def db_select_palettes_def db_select_colors_def
        db_update_colors_def
        updatePaletteColor_set_def first_row_def record_access_def repaint_orange_def sample_rows)
  note twice = partial_update_idempotent [of favorite_sunset "signed_in alice" sample_env sample_store
      later_env repaint_orange, unfolded Let_def]
  from twice [THEN conjunct1, THEN conjunct1]
  have m: "map without_updatedAt [sunset\<lparr>palette_isFavorite := True, palette_updatedAt := 3000\<rparr>, curated, ocean] =
      map without_updatedAt [sunset\<lparr>palette_isFavorite := True, palette_updatedAt := 2000\<rparr>, curated, ocean]"
    by (simp add: p1 p2)
  from twice [THEN conjunct2, THEN conjunct1]
  have c: "colors (snd (updatePaletteColor_handler repaint_orange (signed_in alice) later_env
      (sample_store\<lparr>colors := [orange\<lparr>color_hexValue := ''#FF0000'', color_label := Some ''Red''\<rparr>, teal],
         accesses := [Select ColorPalettes, Select PaletteColors, Update PaletteColors]\<rparr>))) =
     [orange\<lparr>color_hexValue := ''#FF0000'', color_label := Some ''Red''\<rparr>, teal]"
    by (simp add: c1)
  from p1 p2 m c1 c show ?thesis by (intro conjI)
qed

section \<open>What an update cannot change\<close>

lemma defineAction_store:
  "snd (defineAction schema handler input ctx e s) =
     (if schema input then snd (handler input ctx e s) else s)"
  by (simp add: defineAction_def)

lemma createPalette_handler_tables:
  "colors (snd (createPalette_handler input ctx e s)) = colors s \<and>
   (palettes (snd (createPalette_handler input ctx e s)) = palettes s \<or>
    (\<exists>p. palettes (snd (createPalette_handler input ctx e s)) = palettes s @ [p] \<and>
         \<not> palette_isSystem p))"
  by (simp add: createPalette_handler_def db_insert_palette_def record_access_def split: sum.splits)

lemma updatePalette_handler_tables:
  "colors (snd (updatePalette_handler input ctx e s)) = colors s \<and>
   (palettes (snd (updatePalette_handler input ctx e s)) = palettes s \<or>
    palettes (snd (updatePalette_handler input ctx e s)) =
      map (\<lambda>q. if palette_id q = up_id input
               then partial_update_palette input (env_now e) q else q) (palettes s))"
  by (simp add: updatePalette_handler_eq split: sum.splits)

lemma listPalettes_handler_tables:
  "colors (snd (listPalettes_handler input ctx e s)) = colors s \<and>
   palettes (snd (listPalettes_handler input ctx e s)) = palettes s"
  by (simp add: listPalettes_handler_def db_select_palettes_def record_access_def split: sum.splits)

lemma createPaletteColor_handler_tables:
  "palettes (snd (createPaletteColor_handler input ctx e s)) = palettes s \<and>
   (colors (snd (createPaletteColor_handler input ctx e s)) = colors s \<or>
    (\<exists>c. colors (snd (createPaletteColor_handler input ctx e s)) = colors s @ [c] \<and>
         color_id c \<notin> set (map color_id (colors s))))"
proof (cases "requireUser ctx")
  case (Inl err)
  then show ?thesis by (simp add: createPaletteColor_handler_def)
next
  case (Inr u)
  with getOwnedPalette_eq [of "cc_paletteId input" "user_id u" s] show ?thesis
    by (cases "fst (getOwnedPalette (cc_paletteId input) (user_id u) s)")
      (simp_all add: createPaletteColor_handler_def db_insert_color_def record_access_def)
qed

lemma updatePaletteColor_handler_tables:
  "palettes (snd (updatePaletteColor_handler input ctx e s)) = palettes s \<and>
   (colors (snd (updatePaletteColor_handler input ctx e s)) = colors s \<or>
    colors (snd (updatePaletteColor_handler input ctx e s)) =
      map (\<lambda>c. if color_id c = uc_id input then partial_update_color input c else c) (colors s))"
  by (simp add: updatePaletteColor_handler_eq split: sum.splits)

lemma deletePaletteColor_handler_tables:
  "palettes (snd (deletePaletteColor_handler input ctx e s)) = palettes s \<and>
   (colors (snd (deletePaletteColor_handler input ctx e s)) = colors s \<or>
    colors (snd (deletePaletteColor_handler input ctx e s)) =
      filter (\<lambda>c. \<not> (color_id c = dc_id input \<and> color_paletteId c = dc_paletteId input)) (colors s))"
proof (cases "requireUser ctx")
  case (Inl err)
  then show ?thesis by (simp add: deletePaletteColor_handler_def)
next
  case (Inr u)
  with getOwnedPalette_eq [of "dc_paletteId input" "user_id u" s] show ?thesis
    by (cases "fst (getOwnedPalette (dc_paletteId input) (user_id u) s)")
      (simp_all add: deletePaletteColor_handler_def db_delete_colors_def record_access_def)
qed

lemma listPaletteColors_handler_tables:
  "palettes (snd (listPaletteColors_handler input ctx e s)) = palettes s \<and>
   colors (snd (listPaletteColors_handler input ctx e s)) = colors s"
proof (cases "requireUser ctx")
  case (Inl err)
  then show ?thesis by (simp add: listPaletteColors_handler_def)
next
  case (Inr u)
  with getOwnedPalette_eq [of "lc_paletteId input" "user_id u" s] show ?thesis
    by (cases "fst (getOwnedPalette (lc_paletteId input) (user_id u) s)")
      (simp_all add: listPaletteColors_handler_def db_select_colors_def record_access_def)
qed

lemma server_palettes:
  "palettes (server req ctx e s) = palettes s \<or>
   (\<exists>p. palettes (server req ctx e s) = palettes s @ [p] \<and> \<not> palette_isSystem p) \<or>
   (\<exists>input now. palettes (server req ctx e s) =
      map (\<lambda>q. if palette_id q = up_id input then partial_update_palette input now q else q) (palettes s))"
proof (cases req)
  case (CreatePalette input)
  with createPalette_handler_tables [of input ctx e s] show ?thesis
    by (auto simp add: createPalette_def defineAction_store)
next
  case (UpdatePalette input)
  with updatePalette_handler_tables [of input ctx e s] show ?thesis
    by (auto simp add: updatePalette_def defineAction_store)
next
  case (ListPalettes input)
  with listPalettes_handler_tables [of input ctx e s] show ?thesis
    by (simp add: listPalettes_def defineAction_store)
next
  case (CreatePaletteColor input)
  with createPaletteColor_handler_tables [of input ctx e s] show ?thesis
    by (simp add: createPaletteColor_def defineAction_store)
next
  case (UpdatePaletteColor input)
  with updatePaletteColor_handler_tables [of input ctx e s] show ?thesis
    by (simp add: updatePaletteColor_def defineAction_store)
next
  case (DeletePaletteColor input)
  with deletePaletteColor_handler_tables [of input ctx e s] show ?thesis
    by (simp add: deletePaletteColor_def defineAction_store)
next
  case (ListPaletteColors input)
  with listPaletteColors_handler_tables [of input ctx e s] show ?thesis
    by (simp add: listPaletteColors_def defineAction_store)
qed

lemma server_colors:
  "colors (server req ctx e s) = colors s \<or>
   (\<exists>c. colors (server req ctx e s) = colors s @ [c] \<and> color_id c \<notin> set (map color_id (colors s))) \<or>
   (\<exists>input. colors (server req ctx e s) =
      map (\<lambda>c. if color_id c = uc_id input then partial_update_color input c else c) (colors s)) \<or>
   (\<exists>cond. colors (server req ctx e s) = filter cond (colors s))"
proof (cases req)
  case (CreatePalette input)
  with createPalette_handler_tables [of input ctx e s] show ?thesis
    by (simp add: createPalette_def defineAction_store)
next
  case (UpdatePalette input)
  with updatePalette_handler_tables [of input ctx e s] show ?thesis
    by (simp add: updatePalette_def defineAction_store)
next
  case (ListPalettes input)
  with listPalettes_handler_tables [of input ctx e s] show ?thesis
    by (simp add: listPalettes_def defineAction_store)
next
  case (CreatePaletteColor input)
  with createPaletteColor_handler_tables [of input ctx e s] show ?thesis
    by (auto simp add: createPaletteColor_def defineAction_store)
next
  case (UpdatePaletteColor input)
  with updatePaletteColor_handler_tables [of input ctx e s] show ?thesis
    by (auto simp add: updatePaletteColor_def defineAction_store)
next
  case (DeletePaletteColor input)
  with deletePaletteColor_handler_tables [of input ctx e s] show ?thesis
    by (auto simp add: deletePaletteColor_def defineAction_store)
next
  case (ListPaletteColors input)
  with listPaletteColors_handler_tables [of input ctx e s] show ?thesis
    by (simp add: listPaletteColors_def defineAction_store)
qed


lemma same_key_same_row:
  "distinct (map f xs) \<Longrightarrow> a \<in> set xs \<Longrightarrow> b \<in> set xs \<Longrightarrow> f a = f b \<Longrightarrow> a = b"
  by (meson distinct_map inj_onD)

lemma colors_keep_their_palette:
  assumes keys: "distinct (map color_id cs)"
    and step: "cs' = cs \<or>
      (\<exists>c. cs' = cs @ [c] \<and> color_id c \<notin> set (map color_id cs)) \<or>
      (\<exists>input. cs' = map (\<lambda>c. if color_id c = uc_id input then partial_update_color input c else c) cs) \<or>
      (\<exists>cond. cs' = filter cond cs)"
    and c: "c \<in> set cs" and c': "c' \<in> set cs'" and same: "color_id c' = color_id c"
  shows "color_paletteId c' = color_paletteId c"
proof -
  have "\<exists>d\<in>set cs. color_id d = color_id c' \<and> color_paletteId d = color_paletteId c'"
    using step
  proof (elim disjE exE conjE)
    assume "cs' = cs"
    with c' show ?thesis by blast
  next
    fix n assume "cs' = cs @ [n]" and fresh: "color_id n \<notin> set (map color_id cs)"
    with c' have "c' \<in> set cs \<or> c' = n" by auto
    moreover from fresh c same have "c' \<noteq> n" by auto
    ultimately show ?thesis by blast
  next
    fix input
    assume "cs' = map (\<lambda>c. if color_id c = uc_id input then partial_update_color input c else c) cs"
    with c' obtain d where "d \<in> set cs"
      and "c' = (if color_id d = uc_id input then partial_update_color input d else d)"
      by auto
    then show ?thesis by (cases "color_id d = uc_id input") auto
  next
    fix cond assume "cs' = filter cond cs"
    with c' show ?thesis by auto
  qed
  then obtain d where "d \<in> set cs" "color_id d = color_id c'" "color_paletteId d = color_paletteId c'"
    by blast
  with same_key_same_row [OF keys c, of d] same show ?thesis by simp
qed

text \<open>
  C9. When \<open>updatePaletteColor\<close> succeeds, the columns \<open>id\<close>, \<open>paletteId\<close> and \<open>createdAt\<close>
  hold in every row of \<^verbatim>\<open>PaletteColors\<close> what they held before, and the returned row has
  them from a row that was in the table. The object it hands to \<^verbatim>\<open>.set\<close> assigns none of
  these three columns. And no call of the public interface moves a color to another
  palette: on a store that respects the primary keys, a color row found after the call
  with the id of a row that was there before has that row's \<open>paletteId\<close>.
\<close>

theorem updatePaletteColor_frame:
  "(updatePaletteColor_handler input ctx e s = (Inr r, s') \<longrightarrow>
      map color_id (colors s') = map color_id (colors s) \<and>
      map color_paletteId (colors s') = map color_paletteId (colors s) \<and>
      map color_createdAt (colors s') = map color_createdAt (colors s) \<and>
      (\<exists>c\<in>set (colors s). \<exists>c'. r = Some c' \<and> color_id c' = color_id c \<and>
          color_paletteId c' = color_paletteId c \<and> color_createdAt c' = color_createdAt c)) \<and>
   Set_color_id v \<notin> set (updatePaletteColor_set input) \<and>
   Set_color_paletteId v \<notin> set (updatePaletteColor_set input) \<and>
   Set_color_createdAt t \<notin> set (updatePaletteColor_set input) \<and>
   (primary_keys s \<longrightarrow>
      (\<forall>c\<in>set (colors s). \<forall>c'\<in>set (colors (server req ctx e s)).
          color_id c' = color_id c \<longrightarrow> color_paletteId c' = color_paletteId c))"
proof (intro conjI impI ballI)
  assume run: "updatePaletteColor_handler input ctx e s = (Inr r, s')"
  let ?upd = "\<lambda>c. if color_id c = uc_id input then partial_update_color input c else c"
  let ?rows = "filter (\<lambda>c. color_id c = uc_id input) (colors s)"
  from run have s': "colors s' = map ?upd (colors s)"
    and r: "r = first_row (map (partial_update_color input) ?rows)"
    and found: "filter (\<lambda>c. color_id c = uc_id input \<and> color_paletteId c = uc_paletteId input)
        (colors s) \<noteq> []"
    by (auto simp add: updatePaletteColor_handler_eq split: sum.splits if_splits)
  from s' show "map color_id (colors s') = map color_id (colors s)"
    and "map color_paletteId (colors s') = map color_paletteId (colors s)"
    and "map color_createdAt (colors s') = map color_createdAt (colors s)"
    by (simp_all add: comp_def cong: map_cong)
  from found obtain x where "x \<in> set (colors s)" "color_id x = uc_id input"
    by (auto simp add: filter_empty_conv)
  then have "?rows \<noteq> []" by (auto simp add: filter_empty_conv)
  then obtain c rest where rows: "?rows = c # rest" by (cases ?rows) auto
  then have "c \<in> set ?rows" by simp
  then have "c \<in> set (colors s)" by simp
  moreover from r rows have "r = Some (partial_update_color input c)" by (simp add: first_row_def)
  ultimately show "\<exists>c\<in>set (colors s). \<exists>c'. r = Some c' \<and> color_id c' = color_id c \<and>
          color_paletteId c' = color_paletteId c \<and> color_createdAt c' = color_createdAt c"
    by auto
next
  show "Set_color_id v \<notin> set (updatePaletteColor_set input)"
    and "Set_color_paletteId v \<notin> set (updatePaletteColor_set input)"
    and "Set_color_createdAt t \<notin> set (updatePaletteColor_set input)"
    by (simp_all add: updatePaletteColor_set_def split: option.splits)
next
  fix c c'
  assume "primary_keys s" and "c \<in> set (colors s)" and "c' \<in> set (colors (server req ctx e s))"
    and "color_id c' = color_id c"
  then show "color_paletteId c' = color_paletteId c"
    using colors_keep_their_palette [OF _ server_colors [of req ctx e s], of c c']
    by (simp add: primary_keys_def)
qed

theorem updatePaletteColor_frame_witness:
  "updatePaletteColor_handler repaint_orange (signed_in alice) sample_env sample_store =
     (Inr (Some (orange\<lparr>color_hexValue := ''#FF0000'', color_label := Some ''Red''\<rparr>)),
      sample_store\<lparr>colors := [orange\<lparr>color_hexValue := ''#FF0000'', color_label := Some ''Red''\<rparr>, teal],
         accesses := [Select ColorPalettes, Select PaletteColors, Update PaletteColors]\<rparr>) \<and>
   map color_paletteId [orange\<lparr>color_hexValue := ''#FF0000'', color_label := Some ''Red''\<rparr>, teal] =
     map color_paletteId (colors sample_store) \<and>
   primary_keys sample_store \<and>
   orange \<in> set (colors sample_store) \<and>
   orange\<lparr>color_hexValue := ''#FF0000'', color_label := Some ''Red''\<rparr> \<in>
     set (colors (server (UpdatePaletteColor repaint_orange) (signed_in alice) sample_env sample_store)) \<and>
   color_id (orange\<lparr>color_hexValue := ''#FF0000'', color_label := Some ''Red''\<rparr>) = color_id orange \<and>
   color_paletteId (orange\<lparr>color_hexValue := ''#FF0000'', color_label := Some ''Red''\<rparr>) =
     color_paletteId orange"
proof -
  let ?red = "orange\<lparr>color_hexValue := ''#FF0000'', color_label := Some ''Red''\<rparr>"
  have run: "updatePaletteColor_handler repaint_orange (signed_in alice) sample_env sample_store =
     (Inr (Some ?red),
      sample_store\<lparr>colors := [?red, teal],
         accesses := [Select ColorPalettes, Select PaletteColors, Update PaletteColors]\<rparr>)"
    by (simp add: updatePaletteColor_handler_def
        requireUser_def sample_callers getOwnedPalette_def db_select_palettes_def db_select_colors_def
        db_update_colors_def
        updatePaletteColor_set_def first_row_def record_access_def repaint_orange_def sample_rows)
  have schema: "updatePaletteColor_schema repaint_orange"
    by (simp add: updatePaletteColor_schema_def repaint_orange_def)
  have keys: "primary_keys sample_store"
    by (simp add: primary_keys_def sample_rows)
  have before: "orange \<in> set (colors sample_store)"
    by (simp add: sample_store_def)
  have after: "?red \<in> set (colors (server (UpdatePaletteColor repaint_orange) (signed_in alice)
      sample_env sample_store))"
    by (simp add: updatePaletteColor_def defineAction_def schema run)
  have same: "color_id ?red = color_id orange"
    by simp
  note frame = updatePaletteColor_frame [where input = repaint_orange and ctx = "signed_in alice"
      and e = sample_env and s = sample_store and req = "UpdatePaletteColor repaint_orange"]
  from frame [THEN conjunct1, rule_format, OF run]
  have kept: "map color_paletteId [?red, teal] = map color_paletteId (colors sample_store)"
    by simp
  from frame [THEN conjunct2, THEN conjunct2, THEN conjunct2, THEN conjunct2, rule_format,
      OF keys before after same]
  have parent: "color_paletteId ?red = color_paletteId orange" .
  from run kept keys before after same parent show ?thesis by (intro conjI)
qed

text \<open>
  C10. When \<open>updatePalette\<close> succeeds, the columns \<open>id\<close>, \<open>userId\<close>, \<open>isSystem\<close> and \<open>createdAt\<close>
  hold in every row of \<^verbatim>\<open>ColorPalettes\<close> what they held before, and the returned row has
  them from a row that was in the table. The object it hands to \<^verbatim>\<open>.set\<close> assigns none of
  these four columns. And no call of the public interface transfers a palette or makes
  it a system palette: after any call the rows that were there keep these four columns,
  in place, and every row the call added has \<open>isSystem = false\<close>.
\<close>

theorem updatePalette_frame:
  "(updatePalette_handler input ctx e s = (Inr r, s') \<longrightarrow>
      map palette_id (palettes s') = map palette_id (palettes s) \<and>
      map palette_userId (palettes s') = map palette_userId (palettes s) \<and>
      map palette_isSystem (palettes s') = map palette_isSystem (palettes s) \<and>
      map palette_createdAt (palettes s') = map palette_createdAt (palettes s) \<and>
      (\<exists>p\<in>set (palettes s). \<exists>p'. r = Some p' \<and> palette_id p' = palette_id p \<and>
          palette_userId p' = palette_userId p \<and> palette_isSystem p' = palette_isSystem p \<and>
          palette_createdAt p' = palette_createdAt p)) \<and>
   Set_palette_id v \<notin> set (updatePalette_set input e) \<and>
   Set_palette_userId v \<notin> set (updatePalette_set input e) \<and>
   Set_palette_isSystem b \<notin> set (updatePalette_set input e) \<and>
   Set_palette_createdAt t \<notin> set (updatePalette_set input e) \<and>
   (\<exists>new.
      map (\<lambda>p. (palette_id p, palette_userId p, palette_isSystem p, palette_createdAt p))
        (palettes (server req ctx e s)) =
      map (\<lambda>p. (palette_id p, palette_userId p, palette_isSystem p, palette_createdAt p))
        (palettes s @ new) \<and>
      (\<forall>p\<in>set new. \<not> palette_isSystem p))"
proof (intro conjI impI)
  assume run: "updatePalette_handler input ctx e s = (Inr r, s')"
  let ?upd = "\<lambda>q. if palette_id q = up_id input then partial_update_palette input (env_now e) q else q"
  from run obtain u p where u: "requireUser ctx = Inr u"
    and p: "fst (getOwnedPalette (up_id input) (user_id u) s) = Inr p"
    by (auto simp add: updatePalette_handler_eq split: sum.splits)
  from run u p have s': "palettes s' = map ?upd (palettes s)"
    and r: "r = first_row (map (partial_update_palette input (env_now e))
         (filter (\<lambda>q. palette_id q = up_id input) (palettes s)))"
    by (auto simp add: updatePalette_handler_eq)
  from s' show "map palette_id (palettes s') = map palette_id (palettes s)"
    and "map palette_userId (palettes s') = map palette_userId (palettes s)"
    and "map palette_isSystem (palettes s') = map palette_isSystem (palettes s)"
    and "map palette_createdAt (palettes s') = map palette_createdAt (palettes s)"
    by (simp_all add: comp_def cong: map_cong)
  from getOwnedPalette_Inr [OF p] obtain rest
    where rows: "filter (\<lambda>q. palette_id q = up_id input) (palettes s) = p # rest" ..
  then have "p \<in> set (filter (\<lambda>q. palette_id q = up_id input) (palettes s))" by simp
  then have "p \<in> set (palettes s)" by simp
  moreover from r rows have "r = Some (partial_update_palette input (env_now e) p)"
    by (simp add: first_row_def)
  ultimately show "\<exists>p\<in>set (palettes s). \<exists>p'. r = Some p' \<and> palette_id p' = palette_id p \<and>
          palette_userId p' = palette_userId p \<and> palette_isSystem p' = palette_isSystem p \<and>
          palette_createdAt p' = palette_createdAt p"
    by auto
next
  show "Set_palette_id v \<notin> set (updatePalette_set input e)"
    and "Set_palette_userId v \<notin> set (updatePalette_set input e)"
    and "Set_palette_isSystem b \<notin> set (updatePalette_set input e)"
    and "Set_palette_createdAt t \<notin> set (updatePalette_set input e)"
    by (simp_all add: updatePalette_set_def split: option.splits)
next
  let ?fixed = "\<lambda>p. (palette_id p, palette_userId p, palette_isSystem p, palette_createdAt p)"
  from server_palettes [of req ctx e s]
  show "\<exists>new. map ?fixed (palettes (server req ctx e s)) = map ?fixed (palettes s @ new) \<and>
      (\<forall>p\<in>set new. \<not> palette_isSystem p)"
  proof (elim disjE exE conjE)
    assume "palettes (server req ctx e s) = palettes s"
    then have "map ?fixed (palettes (server req ctx e s)) = map ?fixed (palettes s @ []) \<and>
      (\<forall>p\<in>set []. \<not> palette_isSystem p)" by simp
    then show ?thesis by blast
  next
    fix p assume "palettes (server req ctx e s) = palettes s @ [p]" and "\<not> palette_isSystem p"
    then have "map ?fixed (palettes (server req ctx e s)) = map ?fixed (palettes s @ [p]) \<and>
      (\<forall>p\<in>set [p]. \<not> palette_isSystem p)" by simp
    then show ?thesis by blast
  next
    fix i now
    assume "palettes (server req ctx e s) =
      map (\<lambda>q. if palette_id q = up_id i then partial_update_palette i now q else q) (palettes s)"
    then have "map ?fixed (palettes (server req ctx e s)) = map ?fixed (palettes s @ []) \<and>
      (\<forall>p\<in>set []. \<not> palette_isSystem p)" by (simp add: comp_def cong: map_cong)
    then show ?thesis by blast
  qed
qed

theorem updatePalette_frame_witness:
  "updatePalette_handler favorite_sunset (signed_in alice) sample_env sample_store =
     (Inr (Some (sunset\<lparr>palette_isFavorite := True, palette_updatedAt := 2000\<rparr>)),
      sample_store\<lparr>palettes := [sunset\<lparr>palette_isFavorite := True, palette_updatedAt := 2000\<rparr>, curated, ocean],
                   accesses := [Select ColorPalettes, Update ColorPalettes]\<rparr>) \<and>
   map palette_userId [sunset\<lparr>palette_isFavorite := True, palette_updatedAt := 2000\<rparr>, curated, ocean] =
     map palette_userId (palettes sample_store) \<and>
   map palette_isSystem [sunset\<lparr>palette_isFavorite := True, palette_updatedAt := 2000\<rparr>, curated, ocean] =
     map palette_isSystem (palettes sample_store) \<and>
   palettes (server (CreatePalette new_forest) (signed_in alice) sample_env sample_store) =
     palettes sample_store @ [forest] \<and>
   palette_isSystem forest = False"
proof -
  let ?fav = "sunset\<lparr>palette_isFavorite := True, palette_updatedAt := 2000\<rparr>"
  have run: "updatePalette_handler favorite_sunset (signed_in alice) sample_env sample_store =
     (Inr (Some ?fav),
      sample_store\<lparr>palettes := [?fav, curated, ocean],
                   accesses := [Select ColorPalettes, Update ColorPalettes]\<rparr>)"
    by (simp add: updatePalette_handler_def
        requireUser_def sample_callers getOwnedPalette_def db_select_palettes_def db_update_palettes_def
        updatePalette_set_def first_row_def record_access_def favorite_sunset_def sample_rows)
  have created: "palettes (server (CreatePalette new_forest) (signed_in alice) sample_env sample_store) =
     palettes sample_store @ [forest]"
    by (simp add: createPalette_def defineAction_def createPalette_schema_def createPalette_handler_def
        requireUser_def sample_callers db_insert_palette_def first_row_def record_access_def
        new_forest_def sample_rows)
  note frame = updatePalette_frame [where input = favorite_sunset and ctx = "signed_in alice"
      and e = sample_env and s = sample_store and req = "CreatePalette new_forest"]
  from frame [THEN conjunct1, rule_format, OF run]
  have kept: "map palette_userId [?fav, curated, ocean] = map palette_userId (palettes sample_store)"
    "map palette_isSystem [?fav, curated, ocean] = map palette_isSystem (palettes sample_store)"
    by simp_all
  from frame [THEN conjunct2, THEN conjunct2, THEN conjunct2, THEN conjunct2, THEN conjunct2]
  obtain new where
    "map (\<lambda>p. (palette_id p, palette_userId p, palette_isSystem p, palette_createdAt p))
        (palettes sample_store @ [forest]) =
     map (\<lambda>p. (palette_id p, palette_userId p, palette_isSystem p, palette_createdAt p))
        (palettes sample_store @ new)"
    and new: "\<forall>p\<in>set new. \<not> palette_isSystem p"
    unfolding created by blast
  then have "[(palette_id forest, palette_userId forest, palette_isSystem forest, palette_createdAt forest)] =
      map (\<lambda>p. (palette_id p, palette_userId p, palette_isSystem p, palette_createdAt p)) new"
    by simp
  then obtain x where "x \<in> set new" and "palette_isSystem forest = palette_isSystem x"
    by (auto simp add: Cons_eq_map_conv)
  with new have sys: "palette_isSystem forest = False"
    by simp
  from run kept created sys show ?thesis by (intro conjI)
qed

section \<open>The primary keys are kept\<close>

text \<open>The hypothesis \<open>primary_keys\<close> of the theorems above is an invariant of the public
  interface: every call leaves a store that respects the primary keys if it found one.
  And a call without a caller identity leaves the store as it was, whatever the action.\<close>

lemma createPalette_handler_fresh:
  "palettes (snd (createPalette_handler input ctx e s)) = palettes s \<or>
    (\<exists>p. palettes (snd (createPalette_handler input ctx e s)) = palettes s @ [p] \<and>
         palette_id p \<notin> set (map palette_id (palettes s)))"
  by (simp add: createPalette_handler_def db_insert_palette_def record_access_def split: sum.splits)

lemma server_palette_ids:
  "map palette_id (palettes (server req ctx e s)) = map palette_id (palettes s) \<or>
   (\<exists>i. map palette_id (palettes (server req ctx e s)) = map palette_id (palettes s) @ [i] \<and>
        i \<notin> set (map palette_id (palettes s)))"
proof (cases req)
  case (CreatePalette input)
  from createPalette_handler_fresh [of input ctx e s]
  have "map palette_id (palettes (snd (createPalette_handler input ctx e s))) = map palette_id (palettes s) \<or>
   (\<exists>i. map palette_id (palettes (snd (createPalette_handler input ctx e s))) = map palette_id (palettes s) @ [i] \<and>
        i \<notin> set (map palette_id (palettes s)))"
  proof (elim disjE exE conjE)
    assume "palettes (snd (createPalette_handler input ctx e s)) = palettes s"
    then show ?thesis by simp
  next
    fix p assume "palettes (snd (createPalette_handler input ctx e s)) = palettes s @ [p]"
      and "palette_id p \<notin> set (map palette_id (palettes s))"
    then have "map palette_id (palettes (snd (createPalette_handler input ctx e s))) =
        map palette_id (palettes s) @ [palette_id p] \<and> palette_id p \<notin> set (map palette_id (palettes s))"
      by simp
    then show ?thesis by blast
  qed
  with CreatePalette show ?thesis
    by (simp add: createPalette_def defineAction_store)
next
  case (UpdatePalette input)
  with updatePalette_handler_tables [of input ctx e s] show ?thesis
    by (auto simp add: updatePalette_def defineAction_store comp_def cong: map_cong)
next
  case (ListPalettes input)
  with listPalettes_handler_tables [of input ctx e s] show ?thesis
    by (simp add: listPalettes_def defineAction_store)
next
  case (CreatePaletteColor input)
  with createPaletteColor_handler_tables [of input ctx e s] show ?thesis
    by (simp add: createPaletteColor_def defineAction_store)
next
  case (UpdatePaletteColor input)
  with updatePaletteColor_handler_tables [of input ctx e s] show ?thesis
    by (simp add: updatePaletteColor_def defineAction_store)
next
  case (DeletePaletteColor input)
  with deletePaletteColor_handler_tables [of input ctx e s] show ?thesis
    by (simp add: deletePaletteColor_def defineAction_store)
next
  case (ListPaletteColors input)
  with listPaletteColors_handler_tables [of input ctx e s] show ?thesis
    by (simp add: listPaletteColors_def defineAction_store)
qed

lemma primary_keys_server:
  assumes "primary_keys s"
  shows "primary_keys (server req ctx e s)"
proof -
  from assms have p: "distinct (map palette_id (palettes s))"
    and c: "distinct (map color_id (colors s))"
    by (simp_all add: primary_keys_def)
  from server_palette_ids [of req ctx e s]
  have "distinct (map palette_id (palettes (server req ctx e s)))"
  proof (elim disjE exE conjE)
    assume "map palette_id (palettes (server req ctx e s)) = map palette_id (palettes s)"
    with p show ?thesis by simp
  next
    fix i assume "map palette_id (palettes (server req ctx e s)) = map palette_id (palettes s) @ [i]"
      and "i \<notin> set (map palette_id (palettes s))"
    with p show ?thesis by simp
  qed
  moreover from server_colors [of req ctx e s]
  have "distinct (map color_id (colors (server req ctx e s)))"
  proof (elim disjE exE conjE)
    assume "colors (server req ctx e s) = colors s"
    with c show ?thesis by simp
  next
    fix n assume "colors (server req ctx e s) = colors s @ [n]"
      and "color_id n \<notin> set (map color_id (colors s))"
    with c show ?thesis by simp
  next
    fix input
    assume "colors (server req ctx e s) =
      map (\<lambda>c. if color_id c = uc_id input then partial_update_color input c else c) (colors s)"
    then have "map color_id (colors (server req ctx e s)) = map color_id (colors s)"
      by (simp add: comp_def cong: map_cong)
    with c show ?thesis by simp
  next
    fix cond assume "colors (server req ctx e s) = filter cond (colors s)"
    with c show ?thesis by (simp add: distinct_map_filter)
  qed
  ultimately show ?thesis by (simp add: primary_keys_def)
qed

lemma unauthenticated_actions:
  assumes "context_user ctx = None"
  shows "server req ctx e s = s"
proof -
  from assms have u: "requireUser ctx = Inl UNAUTHORIZED"
    by (simp add: requireUser_def)
  show ?thesis
    by (cases req)
      (simp_all add: u defineAction_store createPalette_def updatePalette_def listPalettes_def
        createPaletteColor_def updatePaletteColor_def deletePaletteColor_def listPaletteColors_def
        createPalette_handler_def updatePalette_handler_def listPalettes_handler_def
        createPaletteColor_handler_def updatePaletteColor_handler_def
        deletePaletteColor_handler_def listPaletteColors_handler_def)
qed

end
